theory Spec2Isabelle
  imports Complex_Main "HOL-Library.Word" "HOL-Library.AList"
begin

section \<open>Common data model\<close>

text \<open>
  The exceptions the modelled functions can raise. \<open>ValueError\<close> is what the spec's error
  taxonomy calls a configuration error; \<open>RuntimeError\<close> is what the tensor library raises
  for an empty tensor list or for mismatched shapes.
\<close>

datatype error =
    ValueError
  | IndexError
  | KeyError
  | TypeError
  | AttributeError
  | UnboundLocalError
  | RuntimeError
  | FileNotFoundError
  | ZeroDivisionError
  | ShapeError

text \<open>
  A tensor is its shape together with its elements in row-major order.
\<close>

datatype 'a tensor = Tensor (shape: "nat list") (data: "'a list")

definition numel :: "nat list \<Rightarrow> nat" where
  "numel sh = prod_list sh"

definition wf_tensor :: "'a tensor \<Rightarrow> bool" where
  "wf_tensor t = (length (data t) = numel (shape t))"

text \<open>\<open>t.unsqueeze(0)\<close>: a new leading dimension of size one.\<close>

definition unsqueeze0 :: "'a tensor \<Rightarrow> 'a tensor" where
  "unsqueeze0 t = Tensor (1 # shape t) (data t)"

section \<open>Feature extraction over volumetric batches\<close>

text \<open>
  Modelled from the spec: \<open>is_zero_matrix\<close> of \<open>dinov2.eval.utils\<close>, which is not among
  the sources. The spec describes the test as: the slice is the empty sentinel when all its
  elements equal the fill value zero.
\<close>

definition is_zero_matrix :: "'a::zero tensor \<Rightarrow> bool" where
  "is_zero_matrix t = list_all (\<lambda>v. v = 0) (data t)"

text \<open>
  The encoder is an external callable. It is modelled as a state-passing function, so that
  each invocation is observable: \<open>enc x s\<close> returns the embedding and the encoder's next
  state.

  The inner loop of \<open>DINOV2Encoder.forward_3d\<close> (and of \<open>classifier_forward_pass\<close>):
  \<^verbatim>\<open>
    scans = []
    for scan in batch_scans:
        if not is_zero_matrix(scan): scans.append(self.forward_(scan.unsqueeze(0)))
  \<close>
\<close>

fun scans_loop ::
  "('a::zero tensor \<Rightarrow> 's \<Rightarrow> 'e \<times> 's) \<Rightarrow> 'a tensor list \<Rightarrow> 'e list \<Rightarrow> 's \<Rightarrow> 'e list \<times> 's"
where
  "scans_loop enc [] scans s = (scans, s)"
| "scans_loop enc (scan # rest) scans s =
     (if \<not> is_zero_matrix scan
      then (case enc (unsqueeze0 scan) s of (f, s') \<Rightarrow> scans_loop enc rest (scans @ [f]) s')
      else scans_loop enc rest scans s)"

text \<open>
  The outer loop:
  \<^verbatim>\<open>
    batch_features = []
    for batch_scans in x:
        scans = [] ...
        batch_features.append(scans)
    return batch_features
  \<close>
\<close>

fun batch_loop ::
  "('a::zero tensor \<Rightarrow> 's \<Rightarrow> 'e \<times> 's) \<Rightarrow> 'a tensor list list \<Rightarrow> 'e list list \<Rightarrow> 's
     \<Rightarrow> 'e list list \<times> 's"
where
  "batch_loop enc [] batch_features s = (batch_features, s)"
| "batch_loop enc (batch_scans # rest) batch_features s =
     (case scans_loop enc batch_scans [] s of
        (scans, s') \<Rightarrow> batch_loop enc rest (batch_features @ [scans]) s')"

text \<open>
  \<open>DINOV2Encoder.forward_3d(x)\<close>. The batch \<open>x\<close> is iterated along its first two
  dimensions, so it is given as the list (samples) of lists (slices) of slice tensors.
  \<open>forward_\<close> is the call of the external encoder \<open>enc\<close>.
\<close>

definition DINOV2Encoder_forward_3d ::
  "('a::zero tensor \<Rightarrow> 's \<Rightarrow> 'e \<times> 's) \<Rightarrow> 'a tensor list list \<Rightarrow> 's \<Rightarrow> 'e list list \<times> 's"
where
  "DINOV2Encoder_forward_3d enc x s = batch_loop enc x [] s"

text \<open>
  An instrumented encoder: a pure embedding function \<open>f\<close> whose state is the list of the
  inputs it has been invoked on, in call order.
\<close>

definition traced :: "('x \<Rightarrow> 'e) \<Rightarrow> 'x \<Rightarrow> 'x list \<Rightarrow> 'e \<times> 'x list" where
  "traced f x calls = (f x, calls @ [x])"

definition nonempty_slices :: "'a::zero tensor list \<Rightarrow> 'a tensor list" where
  "nonempty_slices batch_scans = filter (\<lambda>scan. \<not> is_zero_matrix scan) batch_scans"

section \<open>Tensor operations used by the heads\<close>

text \<open>Sequencing of fallible steps: the first exception raised wins.\<close>

definition ebind :: "error + 'a \<Rightarrow> ('a \<Rightarrow> error + 'b) \<Rightarrow> error + 'b" where
  "ebind m f = (case m of Inl e \<Rightarrow> Inl e | Inr x \<Rightarrow> f x)"

text \<open>A list comprehension \<open>[f(x) for x in xs]\<close> whose body can raise.\<close>

fun emap :: "('a \<Rightarrow> error + 'b) \<Rightarrow> 'a list \<Rightarrow> error + 'b list" where
  "emap f [] = Inr []"
| "emap f (x # xs) =
     (case f x of
        Inl e \<Rightarrow> Inl e
      | Inr y \<Rightarrow> (case emap f xs of Inl e \<Rightarrow> Inl e | Inr ys \<Rightarrow> Inr (y # ys)))"

text \<open>The \<open>i\<close>-th sub-tensor along the first dimension, each of \<open>n\<close> elements.\<close>

definition chunk :: "nat \<Rightarrow> 'a list \<Rightarrow> nat \<Rightarrow> 'a list" where
  "chunk n xs i = take n (drop (i * n) xs)"

text \<open>
  \<open>torch.stack(ts)\<close> (along a new first dimension): raises on an empty list and on
  tensors of different shapes.
\<close>

definition torch_stack :: "'a tensor list \<Rightarrow> error + 'a tensor" where
  "torch_stack ts =
     (case ts of
        [] \<Rightarrow> Inl RuntimeError
      | t # rest \<Rightarrow>
          if list_all (\<lambda>u. shape u = shape t) rest
          then Inr (Tensor (length ts # shape t) (concat (map data ts)))
          else Inl RuntimeError)"

text \<open>
  \<open>torch.stack(ts, dim=1)\<close>: as above, and the new dimension comes second, so the inputs
  need at least one dimension.
\<close>

definition torch_stack_dim1 :: "'a tensor list \<Rightarrow> error + 'a tensor" where
  "torch_stack_dim1 ts =
     (case ts of
        [] \<Rightarrow> Inl RuntimeError
      | t # rest \<Rightarrow>
          if \<not> list_all (\<lambda>u. shape u = shape t) rest then Inl RuntimeError
          else (case shape t of
                  [] \<Rightarrow> Inl IndexError
                | d # sh \<Rightarrow>
                    Inr (Tensor (d # length ts # sh)
                          (concat (map (\<lambda>i. concat (map (\<lambda>u. chunk (numel sh) (data u) i) ts))
                                       [0..<d])))))"

text \<open>\<open>t.squeeze()\<close> drops every dimension of size one.\<close>

definition squeeze :: "'a tensor \<Rightarrow> 'a tensor" where
  "squeeze t = Tensor (filter (\<lambda>d. d \<noteq> 1) (shape t)) (data t)"

text \<open>
  Iterating over a tensor yields its sub-tensors along the first dimension; a tensor with
  no dimension cannot be iterated.
\<close>

definition slices :: "'a tensor \<Rightarrow> 'a tensor list" where
  "slices t =
     (case shape t of
        [] \<Rightarrow> []
      | d # sh \<Rightarrow> map (\<lambda>i. Tensor sh (chunk (numel sh) (data t) i)) [0..<d])"

definition iterate :: "'a tensor \<Rightarrow> error + 'a tensor list" where
  "iterate t = (if shape t = [] then Inl TypeError else Inr (slices t))"

text \<open>
  \<open>torch.cat(ts, dim=0)\<close>: raises \<open>ValueError\<close> on an empty list. One-dimensional empty
  tensors (shape \<open>[0]\<close>) are skipped; when nothing else is left the result is such a tensor.
  Of the others, a tensor without dimensions and tensors whose shapes differ after the
  first dimension raise \<open>RuntimeError\<close>.
\<close>

definition torch_cat :: "'a tensor list \<Rightarrow> error + 'a tensor" where
  "torch_cat ts =
     (if ts = [] then Inl ValueError
      else (case filter (\<lambda>u. shape u \<noteq> [0]) ts of
              [] \<Rightarrow> Inr (Tensor [0] [])
            | t # rest \<Rightarrow>
                if list_all (\<lambda>u. shape u \<noteq> [] \<and> tl (shape u) = tl (shape t)) (t # rest)
                then Inr (Tensor (sum_list (map (\<lambda>u. hd (shape u)) (t # rest)) # tl (shape t))
                           (concat (map data (t # rest))))
                else Inl RuntimeError))"

text \<open>
  The index of the first maximum of a non-empty list (the order of the elements stands for
  the order of the floating-point logits).
\<close>

fun argmax_from :: "nat \<Rightarrow> 'a::linorder \<Rightarrow> nat \<Rightarrow> 'a list \<Rightarrow> nat" where
  "argmax_from bi bv i [] = bi"
| "argmax_from bi bv i (v # vs) =
     (if bv < v then argmax_from i v (Suc i) vs else argmax_from bi bv (Suc i) vs)"

definition argmax_list :: "'a::linorder list \<Rightarrow> nat" where
  "argmax_list xs = (case xs of [] \<Rightarrow> 0 | v # vs \<Rightarrow> argmax_from 0 v 1 vs)"

text \<open>
  The argmax over the first dimension of one sub-tensor of shape \<open>c # sh\<close> given by its
  elements: for each of the \<open>numel sh\<close> positions, the class of the largest logit.
\<close>

definition argmax_classes :: "nat \<Rightarrow> nat \<Rightarrow> 'a::linorder list \<Rightarrow> nat list" where
  "argmax_classes c r xs = map (\<lambda>p. argmax_list (map (\<lambda>j. xs ! (j * r + p)) [0..<c])) [0..<r]"

text \<open>
  \<open>t.argmax(dim=1)\<close>: needs two dimensions and a non-empty class dimension; the result
  loses the class dimension.
\<close>

definition argmax_dim1 :: "'a::linorder tensor \<Rightarrow> error + nat tensor" where
  "argmax_dim1 t =
     (case shape t of
        n # c # sh \<Rightarrow>
          if c = 0 then Inl IndexError
          else Inr (Tensor (n # sh)
                 (concat (map (\<lambda>i. argmax_classes c (numel sh) (chunk (c * numel sh) (data t) i))
                              [0..<n])))
      | _ \<Rightarrow> Inl IndexError)"

text \<open>
  \<open>t.type(torch.int64)\<close> on integer labels: the value modulo \<open>2 ^ 64\<close>.
\<close>

definition to_int64 :: "int tensor \<Rightarrow> 64 word tensor" where
  "to_int64 t = Tensor (shape t) (map word_of_int (data t))"

section \<open>Segmentation decoders\<close>

text \<open>
  A Python dictionary (and an \<open>nn.ModuleDict\<close>) keeps its keys in insertion order, and an
  assignment to a key that is present replaces the value in place: an association list
  written with \<^const>\<open>AList.update\<close>.
\<close>

type_synonym ('k, 'v) dict = "('k \<times> 'v) list"

text \<open>
  \<open>LinearDecoder\<close>: the fields set by its constructor. The weights are drawn at random, so
  two decoders are told apart by \<open>uid\<close>, the object's identity (here the number of decoders
  constructed before it).
\<close>

record LinearDecoder =
  in_channels :: nat
  width :: nat
  height :: nat
  num_classes :: nat
  is_3d :: bool
  uid :: nat

definition DECODER_TYPE :: string where
  "DECODER_TYPE = ''linear''"

text \<open>
  \<open>LinearDecoder.forward_\<close>: the reshape to \<open>(-1, height, width, in_channels)\<close> raises unless
  the embedding's size is a multiple of the (non-empty) token grid; the output has shape
  \<open>(n, num_classes, 448, 448)\<close>, with \<open>n = 0\<close> for an embedding without elements. The
  arithmetic of the convolution and of the bilinear interpolation is the parameter \<open>conv\<close>.
\<close>

definition LinearDecoder_forward_base ::
  "(LinearDecoder \<Rightarrow> 'a list \<Rightarrow> 'b list) \<Rightarrow> LinearDecoder \<Rightarrow> 'a tensor \<Rightarrow> error + 'b tensor"
where
  "LinearDecoder_forward_base conv self embeddings =
     (let m = height self * width self * in_channels self;
          n = length (data embeddings)
      in if m = 0 \<or> n mod m \<noteq> 0 then Inl RuntimeError
         else Inr (Tensor [n div m, num_classes self, 448, 448] (conv self (data embeddings))))"

text \<open>
  \<open>LinearDecoder.forward_3d(embeddings, vectorized)\<close>, with \<open>self.forward_\<close> as the
  parameter \<open>fwd\<close>:
  \<^verbatim>\<open>
    for batch_embeddings in embeddings:
        if vectorized:
            batch_outputs.append(self.forward_(torch.stack(batch_embeddings).squeeze()))
        else:
            batch_outputs.append(
                torch.stack([self.forward_(e) for e in batch_embeddings]).squeeze())
  \<close>
\<close>

definition decode_sample ::
  "('a tensor \<Rightarrow> error + 'b tensor) \<Rightarrow> bool \<Rightarrow> 'a tensor list \<Rightarrow> error + 'b tensor"
where
  "decode_sample fwd vectorized batch_embeddings =
     (if vectorized
      then ebind (torch_stack batch_embeddings) (\<lambda>t. fwd (squeeze t))
      else ebind (emap fwd batch_embeddings)
             (\<lambda>outs. ebind (torch_stack outs) (\<lambda>t. Inr (squeeze t))))"

definition LinearDecoder_forward_3d ::
  "('a tensor \<Rightarrow> error + 'b tensor) \<Rightarrow> 'a tensor list list \<Rightarrow> bool \<Rightarrow> error + 'b tensor list"
where
  "LinearDecoder_forward_3d fwd embeddings vectorized =
     emap (decode_sample fwd vectorized) embeddings"

text \<open>
  What a decoder returns, and what the targets are: one tensor for a 2D batch, a Python list
  of per-sample tensors for a 3D batch.
\<close>

datatype 'a tensors = Single "'a tensor" | PerSample "'a tensor list"

text \<open>
  What a decoder is given: the embeddings of a 2D batch as one tensor, or those of a 3D
  batch as the list (samples) of lists (retained slices) that \<open>DINOV2Encoder.forward_3d\<close>
  returns.
\<close>

datatype 'a embeddings = Embedding2D "'a tensor" | Embedding3D "'a tensor list list"

text \<open>
  \<open>LinearDecoder.forward(embeddings)\<close>, with \<open>self.forward_\<close> as the parameter \<open>fwd\<close> and
  \<open>self.is_3d\<close> as \<open>is3d\<close>:
  \<^verbatim>\<open>
    if self.is_3d:
        return self.forward_3d(embeddings)
    return self.forward_(embeddings)
  \<close>
  A tensor given to \<open>forward_3d\<close> is iterated along its first two dimensions; a list given
  to \<open>forward_\<close> has no method \<open>reshape\<close>.
\<close>

definition LinearDecoder_forward ::
  "('a tensor \<Rightarrow> error + 'b tensor) \<Rightarrow> bool \<Rightarrow> 'a embeddings \<Rightarrow> error + 'b tensors"
where
  "LinearDecoder_forward fwd is3d embeddings =
     (if is3d
      then ebind (case embeddings of
                    Embedding3D e \<Rightarrow> Inr e
                  | Embedding2D t \<Rightarrow> ebind (iterate t) (emap iterate))
             (\<lambda>e. ebind (LinearDecoder_forward_3d fwd e False) (\<lambda>ls. Inr (PerSample ls)))
      else (case embeddings of
              Embedding2D t \<Rightarrow> ebind (fwd t) (\<lambda>l. Inr (Single l))
            | Embedding3D e \<Rightarrow> Inl AttributeError))"

record postprocessed =
  preds :: "nat tensor"
  target :: "64 word tensor"

text \<open>
  \<open>LinearPostprocessor.forward(samples, targets)\<close>:
  \<^verbatim>\<open>
    logits = self.decoder(samples)
    if isinstance(logits, list):
        logits = torch.cat(logits, dim=0)
        targets = torch.cat(targets, dim=0).cuda()
    preds = logits.argmax(dim=1)
    targets = targets.type(torch.int64)
  \<close>
  \<open>torch.cat\<close> of a single tensor is a type error, and a list has no method \<open>type\<close>. The
  move to the accelerator does not change the values.
\<close>

definition LinearPostprocessor_forward ::
  "('x \<Rightarrow> error + 'a::linorder tensors) \<Rightarrow> 'x \<Rightarrow> int tensors \<Rightarrow> error + postprocessed"
where
  "LinearPostprocessor_forward decoder samples targets =
     ebind (decoder samples) (\<lambda>logits.
     ebind (case logits of
              PerSample ls \<Rightarrow>
                ebind (torch_cat ls) (\<lambda>l.
                ebind (case targets of PerSample ts \<Rightarrow> torch_cat ts | Single t \<Rightarrow> Inl TypeError)
                  (\<lambda>t. Inr (l, Single t)))
            | Single l \<Rightarrow> Inr (l, targets)) (\<lambda>(l, tg).
     ebind (argmax_dim1 l) (\<lambda>p.
     (case tg of
        Single t \<Rightarrow> Inr \<lparr>preds = p, target = to_int64 t\<rparr>
      | PerSample ts \<Rightarrow> Inl AttributeError))))"

text \<open>
  \<open>AllDecoders\<close>: the constructor copies the dictionary and reads the decoder type off its
  first value, which raises on an empty dictionary.
\<close>

record AllDecoders =
  decoders_dict :: "(string, LinearDecoder) dict"
  decoder_type :: string

definition dict_update :: "('k, 'v) dict \<Rightarrow> ('k, 'v) dict \<Rightarrow> ('k, 'v) dict" where
  "dict_update d other = foldl (\<lambda>acc (k, v). AList.update k v acc) d other"

definition AllDecoders_init :: "(string, LinearDecoder) dict \<Rightarrow> error + AllDecoders" where
  "AllDecoders_init d =
     (case map snd d of
        [] \<Rightarrow> Inl IndexError
      | v # _ \<Rightarrow> Inr \<lparr>decoders_dict = dict_update [] d, decoder_type = DECODER_TYPE\<rparr>)"

text \<open>\<open>AllDecoders.forward\<close>: \<open>{k: v.forward(inputs) for k, v in self.decoders_dict.items()}\<close>.\<close>

definition AllDecoders_forward ::
  "(LinearDecoder \<Rightarrow> 'i \<Rightarrow> error + 'o) \<Rightarrow> AllDecoders \<Rightarrow> 'i \<Rightarrow> error + (string, 'o) dict"
where
  "AllDecoders_forward forward self inputs =
     ebind (emap (\<lambda>(k, v). ebind (forward v inputs) (\<lambda>out. Inr (k, out))) (decoders_dict self))
       (\<lambda>kvs. Inr (dict_update [] kvs))"

definition AllDecoders_len :: "AllDecoders \<Rightarrow> nat" where
  "AllDecoders_len self = length (decoders_dict self)"

section \<open>Classifier-head dispatch\<close>

text \<open>
  Modelled from the spec: the classifier ensemble \<open>AllClassifiers\<close> of \<open>dinov2.eval.linear\<close>,
  which is not among the sources. The spec describes it as a mapping from head name to a
  head exposing \<open>forward(features) -> output\<close>, iterated in insertion order; its \<open>forward\<close>
  is taken to be the one of \<open>AllDecoders\<close> above, over heads that do not raise.
\<close>

type_synonym ('e, 'b) classifiers = "(string, 'e list \<Rightarrow> 'b tensor) dict"

definition AllClassifiers_forward :: "('e, 'b) classifiers \<Rightarrow> 'e list \<Rightarrow> (string, 'b tensor) dict" where
  "AllClassifiers_forward classifiers_dict inputs =
     dict_update [] (map (\<lambda>(k, v). (k, v inputs)) classifiers_dict)"

text \<open>
  \<open>{classifiers[i]: output for i, output in enumerate(outputs)}\<close>: the index raises when it
  runs past the list of names.
\<close>

fun name_outputs ::
  "string list \<Rightarrow> nat \<Rightarrow> 'b tensor list \<Rightarrow> (string, 'b tensor) dict \<Rightarrow> error + (string, 'b tensor) dict"
where
  "name_outputs classifiers i [] acc = Inr acc"
| "name_outputs classifiers i (out # outs) acc =
     (if i < length classifiers
      then name_outputs classifiers (Suc i) outs (AList.update (classifiers ! i) out acc)
      else Inl IndexError)"

text \<open>
  The part of \<open>classifier_forward_pass\<close> after the features of a 3D batch are collected:
  \<^verbatim>\<open>
    outputs = [list(classifier_heads(bf).values()) for bf in batch_features]
    classifier_outputs = [torch.stack(output).squeeze() for output in outputs]
    outputs = torch.stack(classifier_outputs, dim=1)
    classifiers = list(classifier_heads.module.classifiers_dict.keys())
    outputs = {classifiers[i]: output for i, output in enumerate(outputs)}
  \<close>
\<close>

definition dispatch_3d ::
  "('e, 'b) classifiers \<Rightarrow> 'e list list \<Rightarrow> error + (string, 'b tensor) dict"
where
  "dispatch_3d classifier_heads batch_features =
     (let outputs = map (\<lambda>bf. map snd (AllClassifiers_forward classifier_heads bf)) batch_features
      in ebind (emap (\<lambda>output. ebind (torch_stack output) (\<lambda>t. Inr (squeeze t))) outputs)
           (\<lambda>classifier_outputs.
         ebind (torch_stack_dim1 classifier_outputs) (\<lambda>stacked.
         ebind (iterate stacked) (\<lambda>rows.
           name_outputs (map fst classifier_heads) 0 rows []))))"

text \<open>
  The input of the dispatch layer: a 2D batch (\<open>is_3d = False\<close>) is one tensor, a 3D batch
  (\<open>is_3d = True\<close>) is iterated along its first two dimensions and is given as the list
  (samples) of lists (slices) of slice tensors.
\<close>

datatype 'a batch = Batch2D "'a tensor" | Batch3D "'a tensor list list"

text \<open>
  \<open>classifier_forward_pass(feature_model, classifier_heads, data, is_3d)\<close>. The encoder's
  final state is returned beside the outcome, so that its calls stay observable when a
  later step raises.
\<close>

definition classifier_forward_pass ::
  "('a::zero tensor \<Rightarrow> 's \<Rightarrow> 'e \<times> 's) \<Rightarrow> ('e, 'b) classifiers \<Rightarrow> 'a batch \<Rightarrow> 's
     \<Rightarrow> (error + (string, 'b tensor) dict) \<times> 's"
where
  "classifier_forward_pass feature_model classifier_heads batch s =
     (case batch of
        Batch3D x \<Rightarrow>
          (case batch_loop feature_model x [] s of
             (batch_features, s') \<Rightarrow> (dispatch_3d classifier_heads batch_features, s'))
      | Batch2D t \<Rightarrow>
          (case feature_model t s of
             (f, s') \<Rightarrow> (Inr (AllClassifiers_forward classifier_heads [f]), s')))"

section \<open>Sequences of slices\<close>

text \<open>
  A 3D batch reaches the postprocessor as one tensor per sample, each a sequence of slices
  along its first dimension: \<open>sample_sequences s ts\<close> says that every tensor of \<open>ts\<close> is well
  formed and is a sequence of slices of shape \<open>s\<close>; \<open>slice_counts ts\<close> is the number of
  slices of each sample.
\<close>

definition sample_sequences :: "nat list \<Rightarrow> 'a tensor list \<Rightarrow> bool" where
  "sample_sequences s ts = list_all (\<lambda>t. wf_tensor t \<and> shape t \<noteq> [] \<and> tl (shape t) = s) ts"

definition slice_counts :: "'a tensor list \<Rightarrow> nat list" where
  "slice_counts ts = map (\<lambda>t. hd (shape t)) ts"

text \<open>
  The prediction for one slice of logits of shape \<open>c # sh\<close>: at every position the class of
  the largest logit.
\<close>

definition argmax_slice :: "nat \<Rightarrow> nat list \<Rightarrow> 'a::linorder tensor \<Rightarrow> nat tensor" where
  "argmax_slice c sh sl = Tensor sh (argmax_classes c (numel sh) (data sl))"

text \<open>
  A small pipeline for the examples. A slice holds two values; the decoder's \<open>forward_\<close>
  gives two classes at two positions, class 0 with the slice's values and class 1 with
  the same values reversed. \<open>example_volumes\<close> are two samples of three slices, each with one
  all-zero slice; \<open>example_volume_targets\<close> are the target slices of all six slices.
\<close>

definition example_forward :: "int tensor \<Rightarrow> error + int tensor" where
  "example_forward e = Inr (Tensor [1, 2, 2] (data e @ rev (data e)))"

definition example_volumes :: "int tensor list list" where
  "example_volumes =
     [[Tensor [1, 2] [3, 1], Tensor [1, 2] [0, 0], Tensor [1, 2] [2, 7]],
      [Tensor [1, 2] [0, 0], Tensor [1, 2] [4, 4], Tensor [1, 2] [5, 6]]]"

text \<open>
  The embedding of a slice in the examples is the slice as the encoder receives it;
  \<open>example_logit_map\<close> is what \<open>example_forward\<close> returns on an embedding, and
  \<open>example_retained_targets\<close> are the target slices of the four non-empty slices only.
\<close>

definition example_encoder :: "int tensor \<Rightarrow> int tensor" where
  "example_encoder t = t"

definition example_logit_map :: "int tensor \<Rightarrow> int tensor" where
  "example_logit_map e = Tensor [1, 2, 2] (data e @ rev (data e))"

definition example_retained_targets :: "int tensor list" where
  "example_retained_targets = [Tensor [2, 2] [0, 1, 1, 0], Tensor [2, 2] [1, 1, 1, 0]]"

definition example_volume_targets :: "int tensor list" where
  "example_volume_targets =
     [Tensor [3, 2] [0, 1, 0, 0, 1, 0], Tensor [3, 2] [0, 0, 1, 1, 1, 0]]"

section \<open>Strings\<close>

text \<open>\<open>s.split(c)\<close> for a one-character separator: never empty, \<open>''''.split(c) = [''''] \<close>.\<close>

fun split_on :: "char \<Rightarrow> string \<Rightarrow> string list" where
  "split_on c [] = [[]]"
| "split_on c (x # xs) =
     (if x = c then [] # split_on c xs
      else (case split_on c xs of
              [] \<Rightarrow> [[x]]
            | w # ws \<Rightarrow> (x # w) # ws))"

text \<open>\<open>s.replace(a, b)\<close> for one-character strings.\<close>

definition replace_char :: "char \<Rightarrow> char \<Rightarrow> string \<Rightarrow> string" where
  "replace_char a b s = map (\<lambda>c. if c = a then b else c) s"

text \<open>The decimal digits of a natural number, and \<open>str(i)\<close> of an integer.\<close>

definition digit :: "nat \<Rightarrow> char" where
  "digit d = ''0123456789'' ! d"

function digits :: "nat \<Rightarrow> string" where
  "digits n = (if n < 10 then [digit n] else digits (n div 10) @ [digit (n mod 10)])"
  by pat_completeness auto
termination
  by (relation "measure id") auto

definition str_int :: "int \<Rightarrow> string" where
  "str_int i = (if i < 0 then CHR ''-'' # digits (nat (- i)) else digits (nat i))"

text \<open>\<open>s.upper()\<close> on ASCII letters.\<close>

definition upper_char :: "char \<Rightarrow> char" where
  "upper_char c =
     (case map_of (zip ''abcdefghijklmnopqrstuvwxyz'' ''ABCDEFGHIJKLMNOPQRSTUVWXYZ'') c of
        None \<Rightarrow> c
      | Some u \<Rightarrow> u)"

definition upper :: "string \<Rightarrow> string" where
  "upper s = map upper_char s"

text \<open>\<open>xs[i]\<close>: a negative index counts from the end, an index out of range raises.\<close>

definition py_index :: "'a list \<Rightarrow> int \<Rightarrow> error + 'a" where
  "py_index xs i =
     (if 0 \<le> i \<and> i < int (length xs) then Inr (xs ! nat i)
      else if i < 0 \<and> - int (length xs) \<le> i then Inr (xs ! nat (int (length xs) + i))
      else Inl IndexError)"

definition os_sep :: string where
  "os_sep = ''/''"

section \<open>The Shenzhen dataset: split-aware sample index\<close>

datatype Split = TRAIN | VAL | TEST

fun Split_value :: "Split \<Rightarrow> string" where
  "Split_value TRAIN = ''train''"
| "Split_value VAL = ''val''"
| "Split_value TEST = ''test''"

text \<open>The property \<open>_Split.length\<close>: the canonical size of each split.\<close>

fun Split_length :: "Split \<Rightarrow> int" where
  "Split_length TRAIN = 361"
| "Split_length VAL = 91"
| "Split_length TEST = 114"

text \<open>
  The constructor reads \<open>split.value\<close> and \<open>split.length\<close> of whatever object it is given.
  \<open>Member s\<close> is a member of the enumeration \<open>_Split\<close>; \<open>Other v l\<close> is any other object
  whose attribute \<open>value\<close> is \<open>v\<close> and whose attribute \<open>length\<close>, when it has one, is \<open>l\<close>
  (a member of another dataset's split enumeration, for instance).
\<close>

datatype split_arg = Member Split | Other string "int option"

fun split_value :: "split_arg \<Rightarrow> string" where
  "split_value (Member s) = Split_value s"
| "split_value (Other v l) = v"

fun split_length :: "split_arg \<Rightarrow> error + int" where
  "split_length (Member s) = Inr (Split_length s)"
| "split_length (Other v None) = Inl AttributeError"
| "split_length (Other v (Some l)) = Inr l"

text \<open>
  Logging. A logger creates a record for a call at level \<open>l\<close> only when it is enabled for
  \<open>l\<close>, that is when \<open>l\<close> is not below the logger's effective level. The source obtains the
  logger \<open>dinov2\<close> and sets no level, so the effective level is what the program around it
  has configured; unconfigured, it is the root logger's \<open>WARNING\<close>.
\<close>

datatype level = NOTSET | DEBUG | INFO | WARNING | ERROR | CRITICAL

fun level_no :: "level \<Rightarrow> nat" where
  "level_no NOTSET = 0"
| "level_no DEBUG = 10"
| "level_no INFO = 20"
| "level_no WARNING = 30"
| "level_no ERROR = 40"
| "level_no CRITICAL = 50"

definition isEnabledFor :: "level \<Rightarrow> level \<Rightarrow> bool" where
  "isEnabledFor effective l = (level_no effective \<le> level_no l)"

type_synonym log = "(level \<times> string) list"

text \<open>\<open>logger.info(msg)\<close> on a logger of effective level \<open>effective\<close>.\<close>

definition logger_info :: "level \<Rightarrow> string \<Rightarrow> log \<Rightarrow> log" where
  "logger_info effective msg lg = (if isEnabledFor effective INFO then lg @ [(INFO, msg)] else lg)"

text \<open>The records of a log that are warnings.\<close>

definition warnings :: "log \<Rightarrow> log" where
  "warnings lg = filter (\<lambda>r. fst r = WARNING) lg"

record Shenzhen =
  root :: string
  masks_path :: string
  split :: split_arg
  class_id_mapping :: "(string, int) dict"
  class_names :: "string list"
  split_dir :: string
  images :: "string list"

text \<open>
  \<open>Shenzhen._define_split_dir\<close>: sets the split directory, then raises \<open>ValueError\<close> (whose
  message is left out) on a value that is not a recognized name.
\<close>

definition define_split_dir :: "Shenzhen \<Rightarrow> error + Shenzhen" where
  "define_split_dir self =
     (let self' = self\<lparr>split_dir := root self @ os_sep @ split_value (split self)\<rparr>
      in if split_value (split self') \<notin> set [''train'', ''val'', ''test'']
         then Inl ValueError else Inr self')"

text \<open>
  The file system as the constructor sees it: \<open>listdir p\<close> is the list of the entries of
  the directory \<open>p\<close>, or \<open>None\<close> when \<open>os.listdir\<close> raises.

  \<open>Shenzhen._check_size\<close>: one call of \<open>logger.info\<close>, whatever the count.
\<close>

definition check_size ::
  "level \<Rightarrow> (string \<Rightarrow> string list option) \<Rightarrow> Shenzhen \<Rightarrow> log \<Rightarrow> error + log"
where
  "check_size effective listdir self lg =
     (case listdir (split_dir self) of
        None \<Rightarrow> Inl FileNotFoundError
      | Some files \<Rightarrow>
          (let num_of_images = int (length files)
           in ebind (split_length (split self)) (\<lambda>len.
                Inr (logger_info effective
                       (str_int (len - num_of_images) @ '' scans are missing from ''
                          @ upper (split_value (split self)) @ '' set'') lg))))"

text \<open>
  \<open>Shenzhen.__init__(split, root)\<close>. The base class constructor only stores the transforms
  and is left out. The result is the outcome together with the records logged;
  \<open>effective\<close> is the effective level of the logger \<open>dinov2\<close> when the constructor runs.
\<close>

definition Shenzhen_init ::
  "level \<Rightarrow> (string \<Rightarrow> string list option) \<Rightarrow> split_arg \<Rightarrow> string \<Rightarrow> (error + Shenzhen) \<times> log"
where
  "Shenzhen_init effective listdir split0 root0 =
     (let mapping = [(''background'', 0), (''lung'', 1)];
          self = \<lparr>root = root0, masks_path = root0 @ os_sep @ ''masks'', split = split0,
                  class_id_mapping = mapping, class_names = map fst mapping,
                  split_dir = [], images = []\<rparr>
      in case define_split_dir self of
           Inl e \<Rightarrow> (Inl e, [])
         | Inr self1 \<Rightarrow>
             (case check_size effective listdir self1 [] of
                Inl e \<Rightarrow> (Inl e, [])
              | Inr lg \<Rightarrow>
                  (case listdir (split_dir self1) of
                     None \<Rightarrow> (Inl FileNotFoundError, lg)
                   | Some files \<Rightarrow> (Inr (self1\<lparr>images := files\<rparr>), lg))))"

definition Shenzhen_len :: "Shenzhen \<Rightarrow> nat" where
  "Shenzhen_len self = length (images self)"

text \<open>
  The name of the mask file that \<open>get_target\<close> derives from an image file name:
  \<open>self.images[index].split(".")[0] + "_mask.png"\<close>.
\<close>

definition mask_name :: "string \<Rightarrow> error + string" where
  "mask_name img_name = ebind (py_index (split_on CHR ''.'' img_name) 0) (\<lambda>s. Inr (s @ ''_mask.png''))"

text \<open>\<open>mask[mask == 255] = v\<close> on the elements of the mask.\<close>

definition assign_where_255 :: "int \<Rightarrow> int tensor \<Rightarrow> int tensor" where
  "assign_where_255 v msk = Tensor (shape msk) (map (\<lambda>p. if p = 255 then v else p) (data msk))"

text \<open>\<open>d[k]\<close> on a dictionary.\<close>

definition dict_get :: "('k, 'v) dict \<Rightarrow> 'k \<Rightarrow> error + 'v" where
  "dict_get d k = (case map_of d k of None \<Rightarrow> Inl KeyError | Some v \<Rightarrow> Inr v)"

text \<open>
  \<open>Shenzhen.get_target(index)\<close>. \<open>imread p\<close> is the image stored at path \<open>p\<close> as unsigned
  sample values, or \<open>None\<close> when reading raises; \<open>astype(np.int_)\<close> makes the values
  integers.
\<close>

definition get_target :: "(string \<Rightarrow> nat tensor option) \<Rightarrow> Shenzhen \<Rightarrow> int \<Rightarrow> error + int tensor" where
  "get_target imread self index =
     ebind (py_index (images self) index) (\<lambda>img_name.
     ebind (mask_name img_name) (\<lambda>name.
       (let mask_path = masks_path self @ os_sep @ name
        in case imread mask_path of
             None \<Rightarrow> Inl FileNotFoundError
           | Some img \<Rightarrow>
               (let msk = Tensor (shape img) (map int (data img))
                in ebind (dict_get (class_id_mapping self) ''lung'') (\<lambda>lung.
                     Inr (unsqueeze0 (assign_where_255 lung msk)))))))"

text \<open>
  The stem of a file name, as the spec's on-disk layout uses the word: the name without
  its last extension (a leading dot starts no extension).
\<close>

definition image_stem :: "string \<Rightarrow> string" where
  "image_stem name =
     (let parts = split_on CHR ''.'' name
      in if length parts \<le> 1 \<or> (length parts = 2 \<and> hd parts = []) then name
         else concat (map (\<lambda>p. p @ ''.'') (butlast (butlast parts))) @ last (butlast parts))"

text \<open>
  A dataset object as the constructor returns it for a \<open>TRAIN\<close> directory holding the one
  image \<open>CHNCXR_0001_0.png\<close>; it serves as the concrete object of the examples.
\<close>

definition example_index :: Shenzhen where
  "example_index =
     \<lparr>root = ''/data'', masks_path = ''/data/masks'', split = Member TRAIN,
      class_id_mapping = [(''background'', 0), (''lung'', 1)],
      class_names = [''background'', ''lung''], split_dir = ''/data/train'',
      images = [''CHNCXR_0001_0.png'']\<rparr>"

section \<open>The decoder sweep\<close>

text \<open>
  A learning rate is a finite floating-point number; it is modelled by the rational number
  it denotes. \<open>f"{lr:.10f}"\<close> prints it with ten digits after the point, rounded to the
  nearest, a tie going to the even digit, and with the sign of a negative number.
\<close>

definition round_half_even :: "rat \<Rightarrow> int" where
  "round_half_even x =
     (let f = \<lfloor>x\<rfloor>; d = x - of_int f
      in if d < 1 / 2 then f
         else if 1 / 2 < d then f + 1
         else if even f then f else f + 1)"

definition zero_pad :: "nat \<Rightarrow> string \<Rightarrow> string" where
  "zero_pad n s = replicate (n - length s) CHR ''0'' @ s"

definition format_10f :: "rat \<Rightarrow> string" where
  "format_10f x =
     (let n = round_half_even (\<bar>x\<bar> * 10000000000)
      in (if x < 0 then ''-'' else [])
         @ digits (nat (n div 10000000000)) @ ''.''
         @ zero_pad 10 (digits (nat (n mod 10000000000))))"

text \<open>The key of a decoder: \<open>f"{decoder_type}:lr={lr:.10f}".replace(".", "_")\<close>.\<close>

definition decoder_key :: "string \<Rightarrow> rat \<Rightarrow> string" where
  "decoder_key dtype lr = replace_char CHR ''.'' CHR ''_'' (dtype @ '':lr='' @ format_10f lr)"

text \<open>\<open>LinearDecoder(in_channels, tokenW=32, tokenH=32, num_classes, is_3d)\<close>.\<close>

definition LinearDecoder_init :: "nat \<Rightarrow> nat \<Rightarrow> bool \<Rightarrow> nat \<Rightarrow> LinearDecoder" where
  "LinearDecoder_init embed_dim n_classes is3d fresh =
     \<lparr>in_channels = embed_dim, width = 32, height = 32, num_classes = n_classes,
      is_3d = is3d, uid = fresh\<rparr>"

text \<open>
  An optimizer parameter group \<open>{"params": decoder.parameters(), "lr": lr}\<close>: the
  parameters are those of the decoder with identity \<open>params\<close>.
\<close>

record param_group =
  params :: nat
  lr :: rat

text \<open>
  The loop of \<open>setup_decoders\<close>:
  \<^verbatim>\<open>
    for lr in learning_rates:
        if decoder_type == "linear":
            decoder = LinearDecoder(embed_dim, num_classes=num_classes, is_3d=is_3d)
        decoder = decoder.cuda()
        decoders_dict[f"{decoder_type}:lr={lr:.10f}".replace(".", "_")] = decoder
        optim_param_groups.append({"params": decoder.parameters(), "lr": lr})
  \<close>
  The local variable \<open>decoder\<close> is unbound until a decoder is constructed. The number of
  decoders constructed so far is \<open>fresh\<close>.
\<close>

fun setup_loop ::
  "nat \<Rightarrow> nat \<Rightarrow> string \<Rightarrow> bool \<Rightarrow> rat list \<Rightarrow> LinearDecoder option \<Rightarrow> nat
     \<Rightarrow> (string, LinearDecoder) dict \<Rightarrow> param_group list
     \<Rightarrow> error + (string, LinearDecoder) dict \<times> param_group list"
where
  "setup_loop embed_dim n_classes dtype is3d [] decoder fresh dict groups = Inr (dict, groups)"
| "setup_loop embed_dim n_classes dtype is3d (r # rates) decoder fresh dict groups =
     (let decoder1 = (if dtype = ''linear''
                      then Some (LinearDecoder_init embed_dim n_classes is3d fresh)
                      else decoder);
          fresh1 = (if dtype = ''linear'' then Suc fresh else fresh)
      in case decoder1 of
           None \<Rightarrow> Inl UnboundLocalError
         | Some d \<Rightarrow>
             setup_loop embed_dim n_classes dtype is3d rates (Some d) fresh1
               (AList.update (decoder_key dtype r) d dict)
               (groups @ [\<lparr>params = uid d, lr = r\<rparr>]))"

text \<open>
  The ensemble as returned: wrapped for distributed training when
  \<open>distributed.is_enabled()\<close>, which is the parameter \<open>distributed_enabled\<close>.
\<close>

datatype ensemble = Plain AllDecoders | DistributedDataParallel AllDecoders

fun module :: "ensemble \<Rightarrow> AllDecoders" where
  "module (Plain a) = a"
| "module (DistributedDataParallel a) = a"

definition setup_decoders ::
  "bool \<Rightarrow> nat \<Rightarrow> rat list \<Rightarrow> nat \<Rightarrow> string \<Rightarrow> bool \<Rightarrow> error + ensemble \<times> param_group list"
where
  "setup_decoders distributed_enabled embed_dim learning_rates n_classes dtype is3d =
     ebind (setup_loop embed_dim n_classes dtype is3d learning_rates None 0 [] [])
       (\<lambda>(dict, optim_param_groups).
     ebind (AllDecoders_init dict) (\<lambda>decoders.
       Inr (if distributed_enabled then DistributedDataParallel decoders else Plain decoders,
            optim_param_groups)))"

text \<open>
  What the sweep is to produce for the rates \<open>rates\<close>: the \<open>i\<close>-th rate's decoder (the
  \<open>i\<close>-th decoder constructed) under the \<open>i\<close>-th rate's key, and the \<open>i\<close>-th parameter group
  with the parameters of that decoder and that rate.
\<close>

definition sweep_entries :: "nat \<Rightarrow> nat \<Rightarrow> bool \<Rightarrow> rat list \<Rightarrow> (string, LinearDecoder) dict" where
  "sweep_entries e n b rates =
     map (\<lambda>p. (decoder_key ''linear'' (snd p), LinearDecoder_init e n b (fst p)))
       (zip [0..<length rates] rates)"

definition sweep_groups :: "rat list \<Rightarrow> param_group list" where
  "sweep_groups rates = map (\<lambda>p. \<lparr>params = fst p, lr = snd p\<rparr>) (zip [0..<length rates] rates)"

section \<open>The multi-label k-nearest-neighbour classifier\<close>

text \<open>
  Modelled from the spec: the classifier \<open>MLkNN\<close> of \<open>dinov2.eval.utils\<close> (\<open>fit\<close>,
  \<open>predict\<close>), which is not among the sources; \<open>eval_knn\<close> only calls it. The definitions
  below follow the spec's component design: probabilities are rational numbers in place of
  floating-point numbers, every division is written as a step that raises on a zero
  divisor, and the nearest-neighbour search is the external collaborator \<open>nn\<close>:
  \<open>nn X k q\<close> gives the indices in \<open>X\<close> of the \<open>k\<close> reference points nearest to \<open>q\<close>.
\<close>

definition safe_div :: "rat \<Rightarrow> rat \<Rightarrow> error + rat" where
  "safe_div a b = (if b = 0 then Inl ZeroDivisionError else Inr (a / b))"

text \<open>Whether training sample \<open>i\<close> is positive for class \<open>c\<close> in the label matrix \<open>Y\<close>.\<close>

definition positive :: "bool list list \<Rightarrow> nat \<Rightarrow> nat \<Rightarrow> bool" where
  "positive Y i c = (i < length Y \<and> c < length (Y ! i) \<and> Y ! i ! c)"

text \<open>How many of the neighbours \<open>nbrs\<close> are positive for class \<open>c\<close>.\<close>

definition positive_neighbours :: "bool list list \<Rightarrow> nat \<Rightarrow> nat list \<Rightarrow> nat" where
  "positive_neighbours Y c nbrs = length (filter (\<lambda>j. positive Y j c) nbrs)"

text \<open>
  Step 3 of \<open>fit\<close>: the \<open>k\<close> nearest other training samples of training sample \<open>i\<close>
  (the neighbours of \<open>i\<close> excluding \<open>i\<close> itself).
\<close>

definition other_neighbours :: "('f list list \<Rightarrow> nat \<Rightarrow> 'f list \<Rightarrow> nat list) \<Rightarrow> 'f list list \<Rightarrow> nat \<Rightarrow> nat \<Rightarrow> nat list" where
  "other_neighbours nn X k i = take k (filter (\<lambda>j. j \<noteq> i) (nn X (Suc k) (X ! i)))"

text \<open>
  Step 4 of \<open>fit\<close>: for class \<open>c\<close>, the histogram over the neighbour-positive-count
  \<open>j \<in> [0, k]\<close> of the training samples that are positive (\<open>pos = True\<close>) or negative
  (\<open>pos = False\<close>) for \<open>c\<close>.
\<close>

definition histogram ::
  "('f list list \<Rightarrow> nat \<Rightarrow> 'f list \<Rightarrow> nat list) \<Rightarrow> nat \<Rightarrow> 'f list list \<Rightarrow> bool list list \<Rightarrow> nat \<Rightarrow> bool
     \<Rightarrow> nat list"
where
  "histogram nn k X Y c pos =
     map (\<lambda>j. length (filter (\<lambda>i. positive Y i c = pos
                                  \<and> positive_neighbours Y c (other_neighbours nn X k i) = j)
                         [0..<length X]))
         [0..<Suc k]"

text \<open>
  Laplace smoothing (add one to the numerator, and the number of outcomes to the
  denominator): the prior of a class from the count of its positive (or negative) training
  samples, and the likelihood of each neighbour-positive-count from a histogram.
\<close>

definition smoothed_prior :: "nat \<Rightarrow> nat \<Rightarrow> error + rat" where
  "smoothed_prior cnt n = safe_div (1 + of_nat cnt) (2 + of_nat n)"

definition smoothed_likelihoods :: "nat \<Rightarrow> nat list \<Rightarrow> error + rat list" where
  "smoothed_likelihoods k hist =
     emap (\<lambda>h. safe_div (1 + of_nat h) (of_nat (Suc k) + of_nat (sum_list hist))) hist"

record 'f mlknn =
  knn_k :: nat
  train_features :: "'f list list"
  train_labels :: "bool list list"
  prior_positive :: "rat list"
  prior_negative :: "rat list"
  likelihood_positive :: "rat list list"
  likelihood_negative :: "rat list list"

definition count_class :: "bool list list \<Rightarrow> nat \<Rightarrow> bool \<Rightarrow> nat" where
  "count_class Y c pos = length (filter (\<lambda>i. positive Y i c = pos) [0..<length Y])"

text \<open>
  \<open>fit(features, labels)\<close>: an empty training set is a shape error; the number of classes
  is the length of the first label vector.
\<close>

definition MLkNN_fit ::
  "('f list list \<Rightarrow> nat \<Rightarrow> 'f list \<Rightarrow> nat list) \<Rightarrow> nat \<Rightarrow> 'f list list \<Rightarrow> bool list list
     \<Rightarrow> error + 'f mlknn"
where
  "MLkNN_fit nn k X Y =
     (if X = [] \<or> Y = [] then Inl ShapeError
      else
        (let classes = [0..<length (hd Y)]
         in ebind (emap (\<lambda>c. smoothed_prior (count_class Y c True) (length Y)) classes) (\<lambda>pp.
            ebind (emap (\<lambda>c. smoothed_prior (count_class Y c False) (length Y)) classes) (\<lambda>pn.
            ebind (emap (\<lambda>c. smoothed_likelihoods k (histogram nn k X Y c True)) classes) (\<lambda>lp.
            ebind (emap (\<lambda>c. smoothed_likelihoods k (histogram nn k X Y c False)) classes) (\<lambda>ln.
              Inr \<lparr>knn_k = k, train_features = X, train_labels = Y,
                   prior_positive = pp, prior_negative = pn,
                   likelihood_positive = lp, likelihood_negative = ln\<rparr>))))))"

text \<open>
  The posterior of class \<open>c\<close> for one query given its neighbours: Bayes' rule, normalised
  over the two outcomes. The pair is (positive posterior, negative posterior).
\<close>

definition posterior :: "'f mlknn \<Rightarrow> nat list \<Rightarrow> nat \<Rightarrow> error + rat \<times> rat" where
  "posterior m nbrs c =
     (let j = int (positive_neighbours (train_labels m) c nbrs)
      in ebind (py_index (prior_positive m) (int c)) (\<lambda>pp.
         ebind (py_index (prior_negative m) (int c)) (\<lambda>pn.
         ebind (py_index (likelihood_positive m) (int c)) (\<lambda>lps.
         ebind (py_index (likelihood_negative m) (int c)) (\<lambda>lns.
         ebind (py_index lps j) (\<lambda>lp.
         ebind (py_index lns j) (\<lambda>ln.
         ebind (safe_div (pp * lp) (pp * lp + pn * ln)) (\<lambda>post_pos.
         ebind (safe_div (pn * ln) (pp * lp + pn * ln)) (\<lambda>post_neg.
           Inr (post_pos, post_neg))))))))))"

text \<open>
  \<open>predict\<close> on fitted state \<open>m\<close> (\<open>None\<close> before \<open>fit\<close>): for each query the posteriors of
  every class. A query whose dimension differs from the training features' is a shape
  error.
\<close>

definition MLkNN_predict_proba ::
  "('f list list \<Rightarrow> nat \<Rightarrow> 'f list \<Rightarrow> nat list) \<Rightarrow> 'f mlknn option \<Rightarrow> 'f list list
     \<Rightarrow> error + (rat \<times> rat) list list"
where
  "MLkNN_predict_proba nn fitted Q =
     (case fitted of
        None \<Rightarrow> Inl ShapeError
      | Some m \<Rightarrow>
          emap (\<lambda>q. if length q \<noteq> length (hd (train_features m)) then Inl ShapeError
                     else emap (posterior m (nn (train_features m) (knn_k m) q))
                            [0..<length (prior_positive m)])
               Q)"

text \<open>
  The binary output: a class is positive iff its positive posterior exceeds its negative
  one.
\<close>

definition MLkNN_predict ::
  "('f list list \<Rightarrow> nat \<Rightarrow> 'f list \<Rightarrow> nat list) \<Rightarrow> 'f mlknn option \<Rightarrow> 'f list list
     \<Rightarrow> error + bool list list"
where
  "MLkNN_predict nn fitted Q =
     ebind (MLkNN_predict_proba nn fitted Q)
       (\<lambda>rows. Inr (map (map (\<lambda>(post_pos, post_neg). post_neg < post_pos)) rows))"

text \<open>\<open>classifier = MLkNN(k); classifier.fit(X, Y); classifier.predict(Q)\<close>, as \<open>eval_knn\<close> does.\<close>

definition fit_predict_proba ::
  "('f list list \<Rightarrow> nat \<Rightarrow> 'f list \<Rightarrow> nat list) \<Rightarrow> nat \<Rightarrow> 'f list list \<Rightarrow> bool list list \<Rightarrow> 'f list list
     \<Rightarrow> error + (rat \<times> rat) list list"
where
  "fit_predict_proba nn k X Y Q =
     ebind (MLkNN_fit nn k X Y) (\<lambda>m. MLkNN_predict_proba nn (Some m) Q)"

definition fit_predict ::
  "('f list list \<Rightarrow> nat \<Rightarrow> 'f list \<Rightarrow> nat list) \<Rightarrow> nat \<Rightarrow> 'f list list \<Rightarrow> bool list list \<Rightarrow> 'f list list
     \<Rightarrow> error + bool list list"
where
  "fit_predict nn k X Y Q =
     ebind (MLkNN_fit nn k X Y) (\<lambda>m. MLkNN_predict nn (Some m) Q)"

text \<open>Every probability of a result lies in the unit interval.\<close>

definition probabilities_ok :: "(rat \<times> rat) list list \<Rightarrow> bool" where
  "probabilities_ok rows =
     list_all (list_all (\<lambda>(p, q). 0 \<le> p \<and> p \<le> 1 \<and> 0 \<le> q \<and> q \<le> 1)) rows"

text \<open>What smoothing gives a fitted classifier: every prior and every likelihood is positive.\<close>

definition positive_model :: "'f mlknn \<Rightarrow> bool" where
  "positive_model m =
     (list_all (\<lambda>p. 0 < p) (prior_positive m) \<and> list_all (\<lambda>p. 0 < p) (prior_negative m)
      \<and> list_all (list_all (\<lambda>p. 0 < p)) (likelihood_positive m)
      \<and> list_all (list_all (\<lambda>p. 0 < p)) (likelihood_negative m))"

text \<open>
  The fitted state in closed form: what \<open>fit\<close> returns on a non-empty training set.
\<close>

definition fitted_model ::
  "('f list list \<Rightarrow> nat \<Rightarrow> 'f list \<Rightarrow> nat list) \<Rightarrow> nat \<Rightarrow> 'f list list \<Rightarrow> bool list list \<Rightarrow> 'f mlknn"
where
  "fitted_model nn k X Y =
     \<lparr>knn_k = k, train_features = X, train_labels = Y,
      prior_positive = map (\<lambda>c. (1 + of_nat (count_class Y c True)) / (2 + of_nat (length Y)))
                         [0..<length (hd Y)],
      prior_negative = map (\<lambda>c. (1 + of_nat (count_class Y c False)) / (2 + of_nat (length Y)))
                         [0..<length (hd Y)],
      likelihood_positive =
        map (\<lambda>c. map (\<lambda>h. (1 + of_nat h)
                            / (of_nat (Suc k) + of_nat (sum_list (histogram nn k X Y c True))))
                    (histogram nn k X Y c True)) [0..<length (hd Y)],
      likelihood_negative =
        map (\<lambda>c. map (\<lambda>h. (1 + of_nat h)
                            / (of_nat (Suc k) + of_nat (sum_list (histogram nn k X Y c False))))
                    (histogram nn k X Y c False)) [0..<length (hd Y)]\<rparr>"

text \<open>
  A nearest-neighbour search for the examples: brute force over integer features by
  squared Euclidean distance, ties going to the lower index.
\<close>

definition sq_dist :: "int list \<Rightarrow> int list \<Rightarrow> int" where
  "sq_dist p q = sum_list (map (\<lambda>ab. (fst ab - snd ab) * (fst ab - snd ab)) (zip p q))"

definition nearest :: "int list list \<Rightarrow> nat \<Rightarrow> int list \<Rightarrow> nat list" where
  "nearest X k q = take k (map snd (sort_key fst (map (\<lambda>i. (sq_dist (X ! i) q, i)) [0..<length X])))"

section \<open>Properties of feature extraction\<close>

lemma scans_loop_traced:
  "scans_loop (traced f) bs acc calls =
     (acc @ map (\<lambda>scan. f (unsqueeze0 scan)) (nonempty_slices bs),
      calls @ map unsqueeze0 (nonempty_slices bs))"
  by (induction bs arbitrary: acc calls) (simp_all add: traced_def nonempty_slices_def)

lemma batch_loop_traced:
  "batch_loop (traced f) x acc calls =
     (acc @ map (\<lambda>bs. map (\<lambda>scan. f (unsqueeze0 scan)) (nonempty_slices bs)) x,
      calls @ map unsqueeze0 (concat (map nonempty_slices x)))"
  by (induction x arbitrary: acc calls) (simp_all add: scans_loop_traced)

lemma is_zero_matrix_unsqueeze0 [simp]: "is_zero_matrix (unsqueeze0 t) = is_zero_matrix t"
  by (simp add: is_zero_matrix_def unsqueeze0_def)

text \<open>
  Claim C1. For every volumetric batch \<open>x\<close>, feature extraction calls the encoder exactly
  on the slices that are not the all-zero sentinel, in slice order, and never on an empty
  slice; the embeddings of each sample are the encoder's outputs on its non-empty slices,
  one per such slice and in the original order. This holds for
  \<open>DINOV2Encoder.forward_3d\<close>, and the same calls are made by
  \<open>classifier_forward_pass\<close>. The encoder is any function \<open>f\<close>, instrumented so that the
  list of its inputs is observable.
\<close>

theorem C1_encoder_skips_empty_slices:
  "DINOV2Encoder_forward_3d (traced f) x [] =
     (map (\<lambda>bs. map (\<lambda>scan. f (unsqueeze0 scan)) (nonempty_slices bs)) x,
      map unsqueeze0 (concat (map nonempty_slices x)))
   \<and> snd (classifier_forward_pass (traced f) heads (Batch3D x) []) =
       map unsqueeze0 (concat (map nonempty_slices x))
   \<and> list_all (\<lambda>t. \<not> is_zero_matrix t) (snd (DINOV2Encoder_forward_3d (traced f) x []))
   \<and> map length (fst (DINOV2Encoder_forward_3d (traced f) x [])) =
       map (\<lambda>bs. length (nonempty_slices bs)) x"
  by (simp add: DINOV2Encoder_forward_3d_def classifier_forward_pass_def batch_loop_traced
      list_all_iff nonempty_slices_def)

text \<open>
  The instance of the spec: a sample of five slices whose slices 1 and 3 are all zero
  yields exactly three embeddings, those of slices 0, 2 and 4 in this order, and the
  encoder is called three times.
\<close>

theorem C1_five_slices_witness:
  "DINOV2Encoder_forward_3d (traced data)
      [[Tensor [1, 2] [3, 0], Tensor [1, 2] [0, 0], Tensor [1, 2] [0, 4], Tensor [1, 2] [0, 0],
        Tensor [1, 2] [5, 6 :: int]]] []
   = ([[[3, 0], [0, 4], [5, 6]]],
      [Tensor [1, 1, 2] [3, 0], Tensor [1, 1, 2] [0, 4], Tensor [1, 1, 2] [5, 6]])"
  using C1_encoder_skips_empty_slices [of data
      "[[Tensor [1, 2] [3, 0], Tensor [1, 2] [0, 0], Tensor [1, 2] [0, 4], Tensor [1, 2] [0, 0],
        Tensor [1, 2] [5, 6 :: int]]]" "[] :: (int list, int) classifiers"]
  by (simp add: nonempty_slices_def is_zero_matrix_def unsqueeze0_def)

text \<open>
  Claim C10. A volumetric sample all of whose slices are the empty sentinel gets the empty
  embedding sequence from 3D feature extraction, and non-vectorized 3D decoding of a batch
  holding that sample does not return: \<open>torch.stack\<close> is applied to the empty list of
  per-slice outputs and raises. This holds for every decoder function \<open>fwd\<close>.
\<close>

theorem C10_empty_sample_not_decoded:
  "list_all is_zero_matrix bs \<Longrightarrow>
     fst (DINOV2Encoder_forward_3d (traced f) [bs] calls) = [[]]
     \<and> LinearDecoder_forward_3d fwd (fst (DINOV2Encoder_forward_3d (traced f) [bs] calls)) False
         = Inl RuntimeError"
proof -
  assume z: "list_all is_zero_matrix bs"
  then have ne: "nonempty_slices bs = []"
    by (simp add: nonempty_slices_def list_all_iff)
  have enc: "fst (DINOV2Encoder_forward_3d (traced f) [bs] calls) = [[]]"
    by (simp add: DINOV2Encoder_forward_3d_def batch_loop_traced ne del: batch_loop.simps)
  have "decode_sample fwd False [] = Inl RuntimeError"
    by (simp add: decode_sample_def ebind_def torch_stack_def)
  then have "LinearDecoder_forward_3d fwd [[]] False = Inl RuntimeError"
    by (simp add: LinearDecoder_forward_3d_def)
  with enc show ?thesis by simp
qed

theorem C10_empty_sample_witness:
  "list_all is_zero_matrix [Tensor [1, 2] [0, 0 :: int], Tensor [1, 2] [0, 0]]
   \<and> fst (DINOV2Encoder_forward_3d (traced unsqueeze0)
             [[Tensor [1, 2] [0, 0 :: int], Tensor [1, 2] [0, 0]]] []) = [[]]
   \<and> LinearDecoder_forward_3d (Inr :: int tensor \<Rightarrow> error + int tensor)
        (fst (DINOV2Encoder_forward_3d (traced unsqueeze0)
               [[Tensor [1, 2] [0, 0 :: int], Tensor [1, 2] [0, 0]]] [])) False
        = Inl RuntimeError"
proof -
  have z: "list_all is_zero_matrix [Tensor [1, 2] [0, 0 :: int], Tensor [1, 2] [0, 0]]"
    by (simp add: is_zero_matrix_def)
  show ?thesis
    using z C10_empty_sample_not_decoded [OF z, of unsqueeze0 "[]" Inr]
    by blast
qed

section \<open>Properties of the classifier-head dispatch\<close>

text \<open>
  Claim C9. The dispatch of a 3D batch is to return a mapping from head name to that head's
  outputs stacked over the batch, keyed in the heads' declaration order. With a single
  head the code does not: \<open>squeeze()\<close> also removes the dimension that counts the heads,
  the rows enumerated afterwards are the head's output components, and naming the second
  row raises \<open>IndexError\<close>. Here one head with a two-component output is run on a batch of
  one sample with one non-empty slice.
\<close>

theorem C9_single_head_raises:
  "classifier_forward_pass (traced data) [(''linear_head'', \<lambda>fs. Tensor [1, 2] [7, 9 :: int])]
      (Batch3D [[Tensor [1, 2] [3, 0 :: int]]]) []
   = (Inl IndexError, [Tensor [1, 1, 2] [3, 0]])"
  by code_simp

text \<open>
  With two heads the same call returns one entry per head, in declaration order, each the
  head's outputs stacked over the two samples of the batch.
\<close>

lemma two_heads_example:
  "classifier_forward_pass (traced data)
      [(''head_a'', \<lambda>fs. Tensor [1, 2] [sum_list (concat fs), 1 :: int]),
       (''head_b'', \<lambda>fs. Tensor [1, 2] [sum_list (concat fs), 2])]
      (Batch3D [[Tensor [1, 2] [5, 0 :: int], Tensor [1, 2] [0, 0]], [Tensor [1, 2] [7, 0]]]) []
   = (Inr [(''head_a'', Tensor [2, 2] [5, 1, 7, 1]), (''head_b'', Tensor [2, 2] [5, 2, 7, 2])],
      [Tensor [1, 1, 2] [5, 0], Tensor [1, 1, 2] [7, 0]])"
  by code_simp

section \<open>Properties of the split-aware sample index\<close>

text \<open>
  Claim C4. Constructing the index with a split whose value is not one of the three
  recognized names fails with \<open>ValueError\<close> (the exception the spec's taxonomy calls a
  configuration error). It is raised by the constructor before the split directory is
  listed: the outcome depends neither on the file system nor on the logger, nothing is
  logged, and no dataset object exists to serve samples.
\<close>

theorem C4_unsupported_split_raises:
  "split_value s \<notin> set [''train'', ''val'', ''test''] \<Longrightarrow>
     Shenzhen_init effective listdir s r = (Inl ValueError, [])"
  by (simp add: Shenzhen_init_def define_split_dir_def Let_def)

theorem C4_unsupported_split_witness:
  "split_value (Other ''trainval'' None) \<notin> set [''train'', ''val'', ''test'']
   \<and> Shenzhen_init INFO [''/data/trainval'' \<mapsto> [''CHNCXR_0001_0.png'']]
         (Other ''trainval'' None) ''/data''
       = (Inl ValueError, [])"
proof -
  have h: "split_value (Other ''trainval'' None) \<notin> set [''train'', ''val'', ''test'']"
    by simp
  from h C4_unsupported_split_raises [OF h] show ?thesis by blast
qed

lemma Split_value_recognized: "Split_value s \<in> set [''train'', ''val'', ''test'']"
  by (cases s) simp_all

text \<open>
  Claim C5, as the code has it. For every split of the enumeration whose directory can be
  listed and holds a number of files different from the split's canonical size,
  construction does not raise, the index holds exactly the files found, and the
  missing-count message is passed to \<open>logger.info\<close> exactly once: the log holds that one
  record, at level \<open>INFO\<close>, when the logger is enabled for \<open>INFO\<close>, and no record otherwise
  (as with the unconfigured logger, whose effective level is \<open>WARNING\<close>). In neither case
  does it hold a warning.
\<close>

theorem C5_size_mismatch_logged_at_info:
  "listdir (r @ os_sep @ Split_value s) = Some files \<Longrightarrow>
   int (length files) \<noteq> Split_length s \<Longrightarrow>
     map_sum id images (fst (Shenzhen_init effective listdir (Member s) r)) = Inr files
     \<and> map_sum id Shenzhen_len (fst (Shenzhen_init effective listdir (Member s) r))
         = Inr (length files)
     \<and> snd (Shenzhen_init effective listdir (Member s) r) =
         (if isEnabledFor effective INFO
          then [(INFO, str_int (Split_length s - int (length files)) @ '' scans are missing from ''
                         @ upper (Split_value s) @ '' set'')]
          else [])
     \<and> warnings (snd (Shenzhen_init effective listdir (Member s) r)) = []"
  using Split_value_recognized [of s]
  by (simp add: Shenzhen_init_def define_split_dir_def check_size_def ebind_def Let_def
      Shenzhen_len_def logger_info_def warnings_def)

text \<open>
  The instance of the spec: 360 files in the directory of \<open>TRAIN\<close>, whose canonical size is
  361, give an index of 360 samples; with the logger enabled for \<open>INFO\<close> the log is the one
  record \<open>1 scans are missing from TRAIN set\<close>, and with the unconfigured logger it is empty.
\<close>

theorem C5_size_mismatch_witness:
  "[''/data/train'' \<mapsto> replicate 360 ''CHNCXR_0001_0.png''] (''/data'' @ os_sep @ Split_value TRAIN)
     = Some (replicate 360 ''CHNCXR_0001_0.png'')
   \<and> int (length (replicate 360 ''CHNCXR_0001_0.png'')) \<noteq> Split_length TRAIN
   \<and> map_sum id Shenzhen_len
        (fst (Shenzhen_init INFO [''/data/train'' \<mapsto> replicate 360 ''CHNCXR_0001_0.png'']
               (Member TRAIN) ''/data'')) = Inr 360
   \<and> snd (Shenzhen_init INFO [''/data/train'' \<mapsto> replicate 360 ''CHNCXR_0001_0.png'']
               (Member TRAIN) ''/data'') = [(INFO, ''1 scans are missing from TRAIN set'')]
   \<and> map_sum id Shenzhen_len
        (fst (Shenzhen_init WARNING [''/data/train'' \<mapsto> replicate 360 ''CHNCXR_0001_0.png'']
               (Member TRAIN) ''/data'')) = Inr 360
   \<and> snd (Shenzhen_init WARNING [''/data/train'' \<mapsto> replicate 360 ''CHNCXR_0001_0.png'']
               (Member TRAIN) ''/data'') = []"
proof -
  have h: "[''/data/train'' \<mapsto> replicate 360 ''CHNCXR_0001_0.png''] (''/data'' @ os_sep @ Split_value TRAIN)
     = Some (replicate 360 ''CHNCXR_0001_0.png'')"
    by (simp add: os_sep_def)
  have d: "int (length (replicate 360 ''CHNCXR_0001_0.png'')) \<noteq> Split_length TRAIN"
    by simp
  have m: "str_int (Split_length TRAIN - int (length (replicate 360 ''CHNCXR_0001_0.png'')))
             @ '' scans are missing from '' @ upper (Split_value TRAIN) @ '' set''
           = ''1 scans are missing from TRAIN set''"
    by (simp add: str_int_def digit_def upper_def upper_char_def)
  have i: "isEnabledFor INFO INFO" and w: "\<not> isEnabledFor WARNING INFO"
    by (simp_all add: isEnabledFor_def)
  note at_info = C5_size_mismatch_logged_at_info
      [of "[''/data/train'' \<mapsto> replicate 360 ''CHNCXR_0001_0.png'']" "''/data''" TRAIN
          "replicate 360 ''CHNCXR_0001_0.png''" INFO, OF h d]
  note at_warning = C5_size_mismatch_logged_at_info
      [of "[''/data/train'' \<mapsto> replicate 360 ''CHNCXR_0001_0.png'']" "''/data''" TRAIN
          "replicate 360 ''CHNCXR_0001_0.png''" WARNING, OF h d]
  have a1: "map_sum id Shenzhen_len
        (fst (Shenzhen_init INFO [''/data/train'' \<mapsto> replicate 360 ''CHNCXR_0001_0.png'']
               (Member TRAIN) ''/data'')) = Inr 360"
    using at_info by simp
  have a2: "snd (Shenzhen_init INFO [''/data/train'' \<mapsto> replicate 360 ''CHNCXR_0001_0.png'']
               (Member TRAIN) ''/data'') = [(INFO, ''1 scans are missing from TRAIN set'')]"
    using at_info i m by simp
  have b1: "map_sum id Shenzhen_len
        (fst (Shenzhen_init WARNING [''/data/train'' \<mapsto> replicate 360 ''CHNCXR_0001_0.png'']
               (Member TRAIN) ''/data'')) = Inr 360"
    using at_warning by simp
  have b2: "snd (Shenzhen_init WARNING [''/data/train'' \<mapsto> replicate 360 ''CHNCXR_0001_0.png'']
               (Member TRAIN) ''/data'') = []"
    using at_warning w by simp
  from h d a1 a2 b1 b2 show ?thesis
    by (intro conjI)
qed

text \<open>
  Claim C5 as stated asks for exactly one warning. With 360 files against the canonical
  361 the log holds no warning, neither with the unconfigured logger (whose log is empty)
  nor with the logger enabled for \<open>INFO\<close> (whose one record is at level \<open>INFO\<close>).
\<close>

theorem C5_no_warning_counterexample:
  "warnings (snd (Shenzhen_init WARNING [''/data/train'' \<mapsto> replicate 360 ''CHNCXR_0001_0.png'']
               (Member TRAIN) ''/data'')) = []
   \<and> snd (Shenzhen_init WARNING [''/data/train'' \<mapsto> replicate 360 ''CHNCXR_0001_0.png'']
               (Member TRAIN) ''/data'') = []
   \<and> warnings (snd (Shenzhen_init INFO [''/data/train'' \<mapsto> replicate 360 ''CHNCXR_0001_0.png'']
               (Member TRAIN) ''/data'')) = []
   \<and> map fst (snd (Shenzhen_init INFO [''/data/train'' \<mapsto> replicate 360 ''CHNCXR_0001_0.png'']
               (Member TRAIN) ''/data'')) = [INFO]"
  by (simp add: Shenzhen_init_def define_split_dir_def check_size_def ebind_def Let_def
      os_sep_def warnings_def logger_info_def isEnabledFor_def)

lemma split_on_nonempty: "split_on c s \<noteq> []"
  by (induction s) (auto split: list.splits)

lemma mask_name_eq: "mask_name n = Inr (hd (split_on CHR ''.'' n) @ ''_mask.png'')"
  using split_on_nonempty [of "CHR ''.''" n]
  by (cases "split_on CHR ''.'' n") (simp_all add: mask_name_def py_index_def ebind_def)

lemma Shenzhen_init_fields:
  "fst (Shenzhen_init effective listdir s r) = Inr self \<Longrightarrow>
     class_id_mapping self = [(''background'', 0), (''lung'', 1)]
     \<and> masks_path self = r @ os_sep @ ''masks''"
  by (auto simp: Shenzhen_init_def define_split_dir_def Let_def
      split: if_splits sum.splits option.splits)

text \<open>
  Claim C6. For every dataset object the constructor returns, every valid index and every
  mask image stored under the derived mask path, target retrieval returns the mask with
  every pixel of value 255 replaced by the class id 1 of \<open>lung\<close> and every other pixel
  unchanged, under a new leading dimension of size one.
\<close>

theorem C6_mask_255_becomes_lung:
  "fst (Shenzhen_init effective listdir s r) = Inr self \<Longrightarrow>
   py_index (images self) index = Inr name \<Longrightarrow>
   mask_name name = Inr mname \<Longrightarrow>
   imread (masks_path self @ os_sep @ mname) = Some img \<Longrightarrow>
     get_target imread self index =
       Inr (Tensor (1 # shape img) (map (\<lambda>p. if p = 255 then 1 else int p) (data img)))"
proof -
  assume init: "fst (Shenzhen_init effective listdir s r) = Inr self"
    and idx: "py_index (images self) index = Inr name"
    and mn: "mask_name name = Inr mname"
    and rd: "imread (masks_path self @ os_sep @ mname) = Some img"
  have lung: "dict_get (class_id_mapping self) ''lung'' = Inr 1"
    using Shenzhen_init_fields [OF init] by (simp add: dict_get_def)
  have "map ((\<lambda>p. if p = 255 then 1 else p) \<circ> int) (data img) =
        map (\<lambda>p. if p = 255 then 1 else int p) (data img)"
    by (rule map_cong) auto
  then show ?thesis
    by (simp add: get_target_def idx mn rd lung ebind_def Let_def assign_where_255_def
        unsqueeze0_def)
qed

text \<open>
  The instance of the spec: a synthetic mask with the values 0, 255 and 128 is returned as
  0, 1 and 128.
\<close>

theorem C6_synthetic_mask_witness:
  "fst (Shenzhen_init INFO [''/data/train'' \<mapsto> [''CHNCXR_0001_0.png'']] (Member TRAIN) ''/data'')
     = Inr example_index
   \<and> py_index (images example_index) 0 = Inr ''CHNCXR_0001_0.png''
   \<and> mask_name ''CHNCXR_0001_0.png'' = Inr ''CHNCXR_0001_0_mask.png''
   \<and> [''/data/masks/CHNCXR_0001_0_mask.png'' \<mapsto> Tensor [1, 3] [0, 255, 128 :: nat]]
        (masks_path example_index @ os_sep @ ''CHNCXR_0001_0_mask.png'')
       = Some (Tensor [1, 3] [0, 255, 128])
   \<and> get_target [''/data/masks/CHNCXR_0001_0_mask.png'' \<mapsto> Tensor [1, 3] [0, 255, 128]]
        example_index 0 = Inr (Tensor [1, 1, 3] [0, 1, 128])"
proof -
  have a: "fst (Shenzhen_init INFO [''/data/train'' \<mapsto> [''CHNCXR_0001_0.png'']] (Member TRAIN) ''/data'')
     = Inr example_index"
    by (simp add: Shenzhen_init_def define_split_dir_def check_size_def ebind_def Let_def
        os_sep_def example_index_def logger_info_def isEnabledFor_def)
  have b: "py_index (images example_index) 0 = Inr ''CHNCXR_0001_0.png''"
    by (simp add: py_index_def example_index_def)
  have c: "mask_name ''CHNCXR_0001_0.png'' = Inr ''CHNCXR_0001_0_mask.png''"
    by (simp add: mask_name_def py_index_def ebind_def)
  have d: "[''/data/masks/CHNCXR_0001_0_mask.png'' \<mapsto> Tensor [1, 3] [0, 255, 128]]
        (masks_path example_index @ os_sep @ ''CHNCXR_0001_0_mask.png'')
       = Some (Tensor [1, 3] [0, 255, 128 :: nat])"
    by (simp add: example_index_def os_sep_def)
  have e: "get_target [''/data/masks/CHNCXR_0001_0_mask.png'' \<mapsto> Tensor [1, 3] [0, 255, 128]]
        example_index 0 = Inr (Tensor [1, 1, 3] [0, 1, 128])"
    using C6_mask_255_becomes_lung
      [where imread = "[''/data/masks/CHNCXR_0001_0_mask.png'' \<mapsto> Tensor [1, 3] [0, 255, 128]]",
       OF a b c d]
    by simp
  from a b c d e show ?thesis
    by (intro conjI)
qed

text \<open>
  For an image name whose stem holds no dot, the mask name is the stem followed by
  \<open>_mask.png\<close>.
\<close>

lemma split_on_no_sep: "c \<notin> set s \<Longrightarrow> split_on c s = [s]"
  by (induction s) auto

lemma split_on_append: "c \<notin> set s \<Longrightarrow> split_on c (s @ c # t) = s # split_on c t"
  by (induction s) (auto simp: split_on_nonempty split: list.splits)

lemma mask_name_dotless_stem:
  "CHR ''.'' \<notin> set stem \<Longrightarrow> mask_name (stem @ ''.'' @ ext) = Inr (stem @ ''_mask.png'')"
  by (simp add: mask_name_eq split_on_append)


text \<open>
  Claim C7. The mask file name is to be the image file name's stem followed by
  \<open>_mask.png\<close>, also for a stem that contains dots. The code keeps only the text before
  the first dot: for the image \<open>CHNCXR_0001.v2.png\<close>, whose stem is \<open>CHNCXR_0001.v2\<close>, it
  derives \<open>CHNCXR_0001_mask.png\<close>, and target retrieval does not find the mask stored as
  \<open>CHNCXR_0001.v2_mask.png\<close>.
\<close>

theorem C7_dotted_stem_mask_name:
  "mask_name ''CHNCXR_0001.v2.png'' = Inr ''CHNCXR_0001_mask.png''
   \<and> image_stem ''CHNCXR_0001.v2.png'' @ ''_mask.png'' = ''CHNCXR_0001.v2_mask.png''
   \<and> get_target [''/data/masks/CHNCXR_0001.v2_mask.png'' \<mapsto> Tensor [1, 3] [0, 255, 128]]
        (example_index\<lparr>images := [''CHNCXR_0001.v2.png'']\<rparr>) 0 = Inl FileNotFoundError"
  by (simp add: mask_name_def py_index_def ebind_def image_stem_def get_target_def
      example_index_def os_sep_def)

section \<open>Properties of the decoder sweep\<close>

lemma setup_loop_linear:
  "setup_loop e n ''linear'' b rates dec fresh dict groups =
     Inr (foldl (\<lambda>d p. AList.update (decoder_key ''linear'' (snd p))
                           (LinearDecoder_init e n b (fst p)) d)
            dict (zip [fresh..<fresh + length rates] rates),
          groups @ map (\<lambda>p. \<lparr>params = fst p, lr = snd p\<rparr>)
                     (zip [fresh..<fresh + length rates] rates))"
proof (induction rates arbitrary: dec fresh dict groups)
  case Nil
  then show ?case by simp
next
  case (Cons r rates)
  have "[fresh..<fresh + length (r # rates)] = fresh # [Suc fresh..<Suc fresh + length rates]"
    by (simp add: upt_rec)
  then show ?case
    by (simp add: Cons.IH LinearDecoder_init_def)
qed

lemma update_fresh_key: "k \<notin> fst ` set d \<Longrightarrow> AList.update k v d = d @ [(k, v)]"
  by (induction d) auto

lemma foldl_update_distinct:
  "distinct (map fst d @ map fst kvs) \<Longrightarrow>
     foldl (\<lambda>acc (k, v). AList.update k v acc) d kvs = d @ kvs"
proof (induction kvs arbitrary: d)
  case Nil
  then show ?case by simp
next
  case (Cons kv kvs)
  obtain k v where kv: "kv = (k, v)" by (cases kv)
  from Cons.prems kv have fresh: "k \<notin> fst ` set d" by auto
  from Cons.prems kv have "distinct (map fst (d @ [(k, v)]) @ map fst kvs)" by auto
  from Cons.IH [OF this] show ?case
    by (simp add: kv update_fresh_key [OF fresh])
qed

lemma dict_update_distinct: "distinct (map fst kvs) \<Longrightarrow> dict_update [] kvs = kvs"
  using foldl_update_distinct [of "[]" kvs] by (simp add: dict_update_def)

lemma sweep_entries_keys: "map fst (sweep_entries e n b rates) = map (decoder_key ''linear'') rates"
proof -
  have "map fst (sweep_entries e n b rates) =
        map (decoder_key ''linear'' \<circ> snd) (zip [0..<length rates] rates)"
    by (simp add: sweep_entries_def comp_def)
  also have "\<dots> = map (decoder_key ''linear'') (map snd (zip [0..<length rates] rates))"
    by (simp only: map_map)
  also have "\<dots> = map (decoder_key ''linear'') rates"
    by simp
  finally show ?thesis .
qed

lemma sweep_groups_rates: "map lr (sweep_groups rates) = rates"
proof -
  have "map lr (sweep_groups rates) = map snd (zip [0..<length rates] rates)"
    by (simp add: sweep_groups_def comp_def)
  then show ?thesis by simp
qed

text \<open>
  Claim C3, as the code has it. For the decoder type \<open>linear\<close> and every non-empty list of
  learning rates whose keys (the type and the rate printed with ten decimals) are pairwise
  distinct, \<open>setup_decoders\<close> returns an ensemble with exactly one decoder per learning
  rate, under that rate's key and in the order of the list, and exactly one parameter group
  per learning rate, carrying that rate and the parameters of that rate's decoder. The
  ensemble is not empty.
\<close>

theorem C3_distinct_keys_sweep:
  assumes "rates \<noteq> []"
    and "distinct (map (decoder_key ''linear'') rates)"
  shows "setup_decoders ddp e rates n ''linear'' b =
           Inr (if ddp then DistributedDataParallel
                               \<lparr>decoders_dict = sweep_entries e n b rates, decoder_type = ''linear''\<rparr>
                else Plain \<lparr>decoders_dict = sweep_entries e n b rates, decoder_type = ''linear''\<rparr>,
                sweep_groups rates)
         \<and> map fst (sweep_entries e n b rates) = map (decoder_key ''linear'') rates
         \<and> map uid (map snd (sweep_entries e n b rates)) = map params (sweep_groups rates)
         \<and> map lr (sweep_groups rates) = rates
         \<and> length (sweep_entries e n b rates) = length rates
         \<and> length (sweep_groups rates) = length rates
         \<and> sweep_entries e n b rates \<noteq> []"
proof -
  let ?kvs = "sweep_entries e n b rates"
  have keys: "map fst ?kvs = map (decoder_key ''linear'') rates"
    by (rule sweep_entries_keys)
  have fold: "foldl (\<lambda>d p. AList.update (decoder_key ''linear'' (snd p))
                                (LinearDecoder_init e n b (fst p)) d)
                [] (zip [0..<length rates] rates)
              = foldl (\<lambda>acc (k, v). AList.update k v acc) [] ?kvs"
    by (simp add: sweep_entries_def foldl_map comp_def)
  have dict: "foldl (\<lambda>acc (k, v). AList.update k v acc) [] ?kvs = ?kvs"
    using foldl_update_distinct [of "[]" ?kvs] assms(2) keys by simp
  have loop: "setup_loop e n ''linear'' b rates None 0 [] [] = Inr (?kvs, sweep_groups rates)"
    by (simp add: setup_loop_linear fold dict sweep_groups_def)
  have ne: "?kvs \<noteq> []"
    using assms(1) by (simp add: sweep_entries_def)
  then obtain kv rest where kvs: "?kvs = kv # rest"
    by (cases ?kvs) auto
  have dkeys: "distinct (map fst ?kvs)"
    using assms(2) keys by simp
  have upd: "dict_update [] ?kvs = ?kvs"
    by (rule dict_update_distinct [OF dkeys])
  have "map snd ?kvs = snd kv # map snd rest"
    by (simp add: kvs)
  then have init: "AllDecoders_init ?kvs = Inr \<lparr>decoders_dict = ?kvs, decoder_type = ''linear''\<rparr>"
    by (simp add: AllDecoders_init_def DECODER_TYPE_def upd)
  have res: "setup_decoders ddp e rates n ''linear'' b =
           Inr (if ddp then DistributedDataParallel
                               \<lparr>decoders_dict = ?kvs, decoder_type = ''linear''\<rparr>
                else Plain \<lparr>decoders_dict = ?kvs, decoder_type = ''linear''\<rparr>,
                sweep_groups rates)"
    by (simp add: setup_decoders_def loop init ebind_def)
  have uids: "map uid (map snd ?kvs) = map params (sweep_groups rates)"
    by (simp add: sweep_entries_def sweep_groups_def comp_def LinearDecoder_init_def)
  have len1: "length ?kvs = length rates" by (simp add: sweep_entries_def)
  have len2: "length (sweep_groups rates) = length rates" by (simp add: sweep_groups_def)
  from res keys uids sweep_groups_rates [of rates] len1 len2 ne show ?thesis
    by (intro conjI)
qed

lemma digits_0: "digits 0 = ''0''"
  by (simp add: digit_def)

lemma round_tenth: "round_half_even 1000000000 = 1000000000"
  by (simp add: round_half_even_def Let_def)

lemma round_hundredth: "round_half_even 100000000 = 100000000"
  by (simp add: round_half_even_def Let_def)

lemma digits_tenth: "digits 1000000000 = ''1000000000''"
  by (simp add: digit_def)

lemma digits_hundredth: "digits 100000000 = ''100000000''"
  by (simp add: digit_def)

lemma key_tenth: "decoder_key ''linear'' (1 / 10) = ''linear:lr=0_1000000000''"
  by (simp add: decoder_key_def replace_char_def format_10f_def Let_def round_tenth
      digits_tenth digits_0 zero_pad_def del: digits.simps)

lemma key_hundredth: "decoder_key ''linear'' (1 / 100) = ''linear:lr=0_0100000000''"
  by (simp add: decoder_key_def replace_char_def format_10f_def Let_def round_hundredth
      digits_hundredth digits_0 zero_pad_def del: digits.simps)

text \<open>
  The instance of the spec: the learning rates 0.1 and 0.01 give two decoders under two
  keys and two parameter groups with these rates.
\<close>

theorem C3_two_rates_witness:
  "[1 / 10, 1 / 100] \<noteq> ([] :: rat list)
   \<and> distinct (map (decoder_key ''linear'') [1 / 10, 1 / 100])
   \<and> setup_decoders False 384 [1 / 10, 1 / 100] 14 ''linear'' False =
       Inr (Plain \<lparr>decoders_dict =
                     [(''linear:lr=0_1000000000'', LinearDecoder_init 384 14 False 0),
                      (''linear:lr=0_0100000000'', LinearDecoder_init 384 14 False 1)],
                   decoder_type = ''linear''\<rparr>,
            [\<lparr>params = 0, lr = 1 / 10\<rparr>, \<lparr>params = 1, lr = 1 / 100\<rparr>])"
proof -
  have ne: "[1 / 10, 1 / 100] \<noteq> ([] :: rat list)"
    by simp
  have d: "distinct (map (decoder_key ''linear'') [1 / 10, 1 / 100])"
    by (simp add: key_tenth key_hundredth)
  have idx: "[0..<2] = [0, Suc 0]"
    by (simp add: upt_rec)
  have r: "setup_decoders False 384 [1 / 10, 1 / 100] 14 ''linear'' False =
       Inr (Plain \<lparr>decoders_dict =
                     [(''linear:lr=0_1000000000'', LinearDecoder_init 384 14 False 0),
                      (''linear:lr=0_0100000000'', LinearDecoder_init 384 14 False 1)],
                   decoder_type = ''linear''\<rparr>,
            [\<lparr>params = 0, lr = 1 / 10\<rparr>, \<lparr>params = 1, lr = 1 / 100\<rparr>])"
    using C3_distinct_keys_sweep [OF ne d, of False 384 14 False]
    by (simp add: sweep_entries_def sweep_groups_def idx key_tenth key_hundredth)
  from ne d r show ?thesis
    by (intro conjI)
qed

text \<open>
  Claim C3 as stated holds for every list of learning rates. It fails on a list that
  repeats a rate: the two rates share one key, the second decoder replaces the first in
  the ensemble, and the ensemble holds one decoder beside two parameter groups, the first
  of which belongs to a decoder that is no longer in it. It also fails on the empty list
  and on a decoder type other than \<open>linear\<close>, where no ensemble is returned.
\<close>

theorem C3_shared_key_counterexample:
  "setup_decoders False 384 [1 / 10, 1 / 10] 14 ''linear'' False =
       Inr (Plain \<lparr>decoders_dict = [(''linear:lr=0_1000000000'', LinearDecoder_init 384 14 False 1)],
                   decoder_type = ''linear''\<rparr>,
            [\<lparr>params = 0, lr = 1 / 10\<rparr>, \<lparr>params = 1, lr = 1 / 10\<rparr>])
   \<and> setup_decoders False 384 [] 14 ''linear'' False = Inl IndexError
   \<and> setup_decoders False 384 [1 / 10] 14 ''mlp'' False = Inl UnboundLocalError"
  by (simp add: setup_decoders_def ebind_def AllDecoders_init_def dict_update_def
      DECODER_TYPE_def key_tenth LinearDecoder_init_def)

text \<open>
  Two different rates that agree to ten decimals share a key as well.
\<close>

lemma key_tiny: "decoder_key ''linear'' (1 / 100000000000) = ''linear:lr=0_0000000000''"
proof -
  have "\<lfloor>1 / 10 :: rat\<rfloor> = 0"
    by (rule floor_unique) simp_all
  then have "round_half_even (1 / 10) = 0"
    by (simp add: round_half_even_def Let_def)
  moreover have "replicate 9 CHR ''0'' = ''000000000''"
    by (simp add: eval_nat_numeral)
  ultimately show ?thesis
    by (simp add: decoder_key_def replace_char_def format_10f_def Let_def
      digits_0 zero_pad_def del: digits.simps)
qed

section \<open>Properties of the multi-label k-nearest-neighbour classifier\<close>

lemma emap_pure: "emap (\<lambda>x. Inr (g x)) xs = Inr (map g xs)"
  by (induction xs) simp_all

lemma emap_Inl: "emap f xs = Inl e \<Longrightarrow> \<exists>x\<in>set xs. f x = Inl e"
  by (induction xs) (auto split: sum.splits)

lemma emap_Inr: "emap f xs = Inr ys \<Longrightarrow> list_all2 (\<lambda>x y. f x = Inr y) xs ys"
  by (induction xs arbitrary: ys) (auto split: sum.splits)

lemma emap_total: "(\<And>x. x \<in> set xs \<Longrightarrow> \<exists>y. f x = Inr y) \<Longrightarrow> \<exists>ys. emap f xs = Inr ys"
proof (induction xs)
  case Nil
  then show ?case by simp
next
  case (Cons x xs)
  from Cons.prems obtain y where y: "f x = Inr y" by auto
  from Cons.IH Cons.prems obtain ys where ys: "emap f xs = Inr ys" by auto
  from y ys show ?case by simp
qed

lemma py_index_mem: "py_index xs i = Inr v \<Longrightarrow> v \<in> set xs"
  by (auto simp: py_index_def split: if_splits)

lemma py_index_error: "py_index xs i = Inl e \<Longrightarrow> e = IndexError"
  by (auto simp: py_index_def split: if_splits)

lemma py_index_in_range: "i < length xs \<Longrightarrow> py_index xs (int i) = Inr (xs ! i)"
  by (simp add: py_index_def)

lemma smoothed_prior_eq: "smoothed_prior cnt n = Inr ((1 + of_nat cnt) / (2 + of_nat n))"
proof -
  have "(2 :: rat) + of_nat n \<noteq> 0"
    using of_nat_0_le_iff [of n, where 'a = rat] by linarith
  then show ?thesis by (simp add: smoothed_prior_def safe_div_def)
qed

lemma smoothed_likelihoods_eq:
  "smoothed_likelihoods k hist =
     Inr (map (\<lambda>h. (1 + of_nat h) / (of_nat (Suc k) + of_nat (sum_list hist))) hist)"
proof -
  have nz: "(of_nat (Suc k) :: rat) + of_nat (sum_list hist) \<noteq> 0"
    by (metis add_is_0 nat.distinct(1) of_nat_add of_nat_eq_0_iff)
  have "smoothed_likelihoods k hist =
        emap (\<lambda>h. Inr ((1 + of_nat h) / (of_nat (Suc k) + of_nat (sum_list hist)))) hist"
    using nz by (simp add: smoothed_likelihoods_def safe_div_def)
  then show ?thesis by (simp only: emap_pure)
qed

lemma MLkNN_fit_eq:
  "MLkNN_fit nn k X Y = (if X = [] \<or> Y = [] then Inl ShapeError else Inr (fitted_model nn k X Y))"
  by (simp add: MLkNN_fit_def smoothed_prior_eq smoothed_likelihoods_eq emap_pure ebind_def
      Let_def fitted_model_def)

lemma smoothed_pos: "(0 :: rat) < (1 + of_nat a) / (of_nat (Suc b) + of_nat c)"
proof -
  have "(0 :: rat) < 1 + of_nat a"
    using of_nat_0_le_iff [of a, where 'a = rat] by linarith
  moreover have "(0 :: rat) < of_nat (Suc b) + of_nat c"
    using of_nat_0_le_iff [of c, where 'a = rat] of_nat_0_less_iff [of "Suc b", where 'a = rat]
    by simp
  ultimately show ?thesis by simp
qed

lemma prior_pos: "(0 :: rat) < (1 + of_nat a) / (2 + of_nat c)"
proof -
  have "(0 :: rat) < 1 + of_nat a"
    using of_nat_0_le_iff [of a, where 'a = rat] by linarith
  moreover have "(0 :: rat) < 2 + of_nat c"
    using of_nat_0_le_iff [of c, where 'a = rat] by linarith
  ultimately show ?thesis by simp
qed

lemma fitted_model_positive: "positive_model (fitted_model nn k X Y)"
  by (simp add: positive_model_def fitted_model_def list_all_iff prior_pos smoothed_pos
      del: of_nat_Suc)


lemma posterior_cases:
  assumes "positive_model m"
  shows "(\<exists>p q. posterior m nbrs c = Inr (p, q) \<and> 0 \<le> p \<and> p \<le> 1 \<and> 0 \<le> q \<and> q \<le> 1)
         \<or> posterior m nbrs c = Inl IndexError"
proof -
  let ?j = "int (positive_neighbours (train_labels m) c nbrs)"
  consider (err) "\<exists>e. py_index (prior_positive m) (int c) = Inl e
                     \<or> py_index (prior_negative m) (int c) = Inl e
                     \<or> py_index (likelihood_positive m) (int c) = Inl e
                     \<or> py_index (likelihood_negative m) (int c) = Inl e"
    | (ok) pp pn lps lns where "py_index (prior_positive m) (int c) = Inr pp"
        "py_index (prior_negative m) (int c) = Inr pn"
        "py_index (likelihood_positive m) (int c) = Inr lps"
        "py_index (likelihood_negative m) (int c) = Inr lns"
    by (meson sum.exhaust_sel obj_sumE)
  then show ?thesis
  proof cases
    case err
    then have "posterior m nbrs c = Inl IndexError"
      by (auto simp: posterior_def ebind_def Let_def dest: py_index_error split: sum.splits)
    then show ?thesis by simp
  next
    case ok
    from assms ok have pp: "0 < pp" and pn: "0 < pn"
      and lps: "list_all (\<lambda>p. 0 < p) lps" and lns: "list_all (\<lambda>p. 0 < p) lns"
      by (auto simp: positive_model_def list_all_iff dest: py_index_mem)
    show ?thesis
    proof (cases "py_index lps ?j")
      case (Inl e)
      then have "posterior m nbrs c = Inl IndexError"
        using ok by (auto simp: posterior_def ebind_def Let_def dest: py_index_error)
      then show ?thesis by simp
    next
      case lp: (Inr lp)
      show ?thesis
      proof (cases "py_index lns ?j")
        case (Inl e)
        then have "posterior m nbrs c = Inl IndexError"
          using ok lp by (auto simp: posterior_def ebind_def Let_def dest: py_index_error)
        then show ?thesis by simp
      next
        case ln: (Inr ln)
        from lp lps have lp0: "0 < lp"
          by (auto simp: list_all_iff dest: py_index_mem)
        from ln lns have ln0: "0 < ln"
          by (auto simp: list_all_iff dest: py_index_mem)
        have a: "0 < pp * lp" and b: "0 < pn * ln"
          using pp pn lp0 ln0 by simp_all
        then have d: "0 < pp * lp + pn * ln" by simp
        have post: "posterior m nbrs c =
                Inr (pp * lp / (pp * lp + pn * ln), pn * ln / (pp * lp + pn * ln))"
          using ok lp ln d by (simp add: posterior_def ebind_def Let_def safe_div_def)
        have "0 \<le> pp * lp / (pp * lp + pn * ln)" "pp * lp / (pp * lp + pn * ln) \<le> 1"
             "0 \<le> pn * ln / (pp * lp + pn * ln)" "pn * ln / (pp * lp + pn * ln) \<le> 1"
          using a b d by (simp_all add: divide_le_eq)
        with post show ?thesis by blast
      qed
    qed
  qed
qed


lemma emap_Inr_mem: "emap f xs = Inr ys \<Longrightarrow> y \<in> set ys \<Longrightarrow> \<exists>x\<in>set xs. f x = Inr y"
  by (induction xs arbitrary: ys) (auto split: sum.splits)

lemma predict_proba_no_division_error:
  assumes "positive_model m"
  shows "MLkNN_predict_proba nn (Some m) Q \<noteq> Inl ZeroDivisionError"
proof
  assume "MLkNN_predict_proba nn (Some m) Q = Inl ZeroDivisionError"
  then obtain q where
    "(if length q \<noteq> length (hd (train_features m)) then Inl ShapeError
      else emap (posterior m (nn (train_features m) (knn_k m) q)) [0..<length (prior_positive m)])
     = Inl ZeroDivisionError"
    by (auto simp: MLkNN_predict_proba_def dest!: emap_Inl)
  then have "emap (posterior m (nn (train_features m) (knn_k m) q)) [0..<length (prior_positive m)]
     = Inl ZeroDivisionError"
    by (simp split: if_splits)
  then obtain c where "posterior m (nn (train_features m) (knn_k m) q) c = Inl ZeroDivisionError"
    by (auto dest!: emap_Inl)
  with posterior_cases [OF assms, of "nn (train_features m) (knn_k m) q" c] show False
    by auto
qed

lemma predict_proba_in_unit_interval:
  assumes "positive_model m" and "MLkNN_predict_proba nn (Some m) Q = Inr P"
  shows "probabilities_ok P"
proof -
  have "0 \<le> fst pr \<and> fst pr \<le> 1 \<and> 0 \<le> snd pr \<and> snd pr \<le> 1"
    if row: "row \<in> set P" and pr: "pr \<in> set row" for row pr
  proof -
    from assms(2) row obtain q where
      "(if length q \<noteq> length (hd (train_features m)) then Inl ShapeError
        else emap (posterior m (nn (train_features m) (knn_k m) q)) [0..<length (prior_positive m)])
       = Inr row"
      by (auto simp: MLkNN_predict_proba_def dest!: emap_Inr_mem)
    then have "emap (posterior m (nn (train_features m) (knn_k m) q)) [0..<length (prior_positive m)]
       = Inr row"
      by (simp split: if_splits)
    with pr obtain c where "posterior m (nn (train_features m) (knn_k m) q) c = Inr pr"
      by (auto dest!: emap_Inr_mem)
    with posterior_cases [OF assms(1), of "nn (train_features m) (knn_k m) q" c] show ?thesis
      by auto
  qed
  then show ?thesis
    by (auto simp: probabilities_ok_def list_all_iff)
qed

lemma length_histogram: "length (histogram nn k X Y c pos) = Suc k"
  by (simp add: histogram_def)

lemma positive_neighbours_le: "positive_neighbours Y c nbrs \<le> length nbrs"
  by (simp add: positive_neighbours_def)

lemma posterior_total:
  assumes c: "c < length (hd Y)" and n: "length nbrs \<le> k"
  shows "\<exists>pr. posterior (fitted_model nn k X Y) nbrs c = Inr pr"
proof -
  let ?m = "fitted_model nn k X Y"
  let ?j = "positive_neighbours (train_labels ?m) c nbrs"
  have j: "?j < Suc k"
    using positive_neighbours_le [of "train_labels ?m" c nbrs] n by simp
  have 1: "py_index (prior_positive ?m) (int c) = Inr (prior_positive ?m ! c)"
    using c by (intro py_index_in_range) (simp add: fitted_model_def)
  have 2: "py_index (prior_negative ?m) (int c) = Inr (prior_negative ?m ! c)"
    using c by (intro py_index_in_range) (simp add: fitted_model_def)
  have 3: "py_index (likelihood_positive ?m) (int c) = Inr (likelihood_positive ?m ! c)"
    using c by (intro py_index_in_range) (simp add: fitted_model_def)
  have 4: "py_index (likelihood_negative ?m) (int c) = Inr (likelihood_negative ?m ! c)"
    using c by (intro py_index_in_range) (simp add: fitted_model_def)
  have 5: "py_index (likelihood_positive ?m ! c) (int ?j) = Inr (likelihood_positive ?m ! c ! ?j)"
    using c j by (intro py_index_in_range) (simp add: fitted_model_def length_histogram)
  have 6: "py_index (likelihood_negative ?m ! c) (int ?j) = Inr (likelihood_negative ?m ! c ! ?j)"
    using c j by (intro py_index_in_range) (simp add: fitted_model_def length_histogram)
  have "posterior ?m nbrs c \<noteq> Inl IndexError"
    by (simp add: posterior_def Let_def 1 2 3 4 5 6 ebind_def safe_div_def)
  with posterior_cases [OF fitted_model_positive, of nn k X Y nbrs c] show ?thesis
    by auto
qed

lemma predict_proba_total:
  assumes "X \<noteq> []" and "Y \<noteq> []"
    and "list_all (\<lambda>q. length q = length (hd X) \<and> length (nn X k q) \<le> k) Q"
  shows "\<exists>P. MLkNN_predict_proba nn (Some (fitted_model nn k X Y)) Q = Inr P"
proof -
  let ?m = "fitted_model nn k X Y"
  have tf: "train_features ?m = X" and kk: "knn_k ?m = k"
    and lp: "length (prior_positive ?m) = length (hd Y)"
    by (simp_all add: fitted_model_def)
  have "\<exists>row. (if length q \<noteq> length (hd (train_features ?m)) then Inl ShapeError
        else emap (posterior ?m (nn (train_features ?m) (knn_k ?m) q)) [0..<length (prior_positive ?m)])
       = Inr row" if q: "q \<in> set Q" for q
  proof -
    from assms(3) q have len: "length q = length (hd X)" and n: "length (nn X k q) \<le> k"
      by (auto simp: list_all_iff)
    have "\<exists>row. emap (posterior ?m (nn X k q)) [0..<length (hd Y)] = Inr row"
    proof (rule emap_total)
      fix c
      assume "c \<in> set [0..<length (hd Y)]"
      then have "c < length (hd Y)" by simp
      from posterior_total [OF this n] show "\<exists>y. posterior ?m (nn X k q) c = Inr y" .
    qed
    then show ?thesis
      by (simp add: tf kk lp len)
  qed
  then show ?thesis
    unfolding MLkNN_predict_proba_def option.case
    by (rule emap_total)
qed

text \<open>
  Claim C2. For every \<open>k\<close>, every nearest-neighbour search, every training set and every
  list of queries (the training set itself included), \<open>fit\<close> followed by \<open>predict\<close> never
  raises a division error, and every posterior probability it produces lies between 0 and
  1. No assumption on the classes is needed: with Laplace smoothing the denominators are
  positive also for a class that is all positive or all negative in training. When the
  training set is not empty, the queries have the training dimension and the search returns
  at most \<open>k\<close> neighbours, the call returns the posteriors.
\<close>

theorem C2_fit_predict_probabilities:
  "fit_predict_proba nn k X Y Q \<noteq> Inl ZeroDivisionError
   \<and> fit_predict nn k X Y Q \<noteq> Inl ZeroDivisionError
   \<and> (fit_predict_proba nn k X Y Q = Inr P \<longrightarrow> probabilities_ok P)
   \<and> (X \<noteq> [] \<and> Y \<noteq> [] \<and> list_all (\<lambda>q. length q = length (hd X) \<and> length (nn X k q) \<le> k) Q
        \<longrightarrow> (\<exists>R. fit_predict_proba nn k X Y Q = Inr R))"
proof (cases "X = [] \<or> Y = []")
  case True
  then show ?thesis
    by (auto simp: fit_predict_proba_def fit_predict_def MLkNN_fit_eq ebind_def)
next
  case False
  let ?m = "fitted_model nn k X Y"
  have fp: "fit_predict_proba nn k X Y Q = MLkNN_predict_proba nn (Some ?m) Q"
    using False by (simp add: fit_predict_proba_def MLkNN_fit_eq ebind_def)
  have f: "fit_predict nn k X Y Q = MLkNN_predict nn (Some ?m) Q"
    using False by (simp add: fit_predict_def MLkNN_fit_eq ebind_def)
  have 1: "fit_predict_proba nn k X Y Q \<noteq> Inl ZeroDivisionError"
    unfolding fp by (rule predict_proba_no_division_error [OF fitted_model_positive])
  have 2: "fit_predict nn k X Y Q \<noteq> Inl ZeroDivisionError"
    using 1 unfolding f fp by (auto simp: MLkNN_predict_def ebind_def split: sum.splits)
  have 3: "fit_predict_proba nn k X Y Q = Inr P \<longrightarrow> probabilities_ok P"
    unfolding fp using predict_proba_in_unit_interval [OF fitted_model_positive] by blast
  have 4: "X \<noteq> [] \<and> Y \<noteq> [] \<and> list_all (\<lambda>q. length q = length (hd X) \<and> length (nn X k q) \<le> k) Q
        \<longrightarrow> (\<exists>R. fit_predict_proba nn k X Y Q = Inr R)"
    unfolding fp using predict_proba_total by blast
  from 1 2 3 4 show ?thesis by (intro conjI)
qed


text \<open>
  An instance: four training samples with two classes, each class with a positive and a
  negative sample, \<open>k = 2\<close>, prediction on the training set itself.
\<close>

theorem C2_training_set_witness:
  "fit_predict_proba nearest 2 [[0], [1], [5], [6]]
      [[True, False], [True, False], [False, False], [False, True]]
      [[0], [1], [5], [6]]
     = Inr [[(1 / 2, 1 / 2), (1 / 3, 2 / 3)], [(1 / 2, 1 / 2), (1 / 3, 2 / 3)],
            [(1 / 2, 1 / 2), (3 / 11, 8 / 11)], [(1 / 2, 1 / 2), (3 / 11, 8 / 11)]]
   \<and> probabilities_ok
        [[(1 / 2, 1 / 2), (1 / 3, 2 / 3)], [(1 / 2, 1 / 2), (1 / 3, 2 / 3)],
         [(1 / 2, 1 / 2), (3 / 11, 8 / 11)], [(1 / 2, 1 / 2), (3 / 11, 8 / 11)]]
   \<and> fit_predict nearest 2 [[0], [1], [5], [6]]
      [[True, False], [True, False], [False, False], [False, True]]
      [[0], [1], [5], [6]] \<noteq> Inl ZeroDivisionError"
proof -
  have e: "fit_predict_proba nearest 2 [[0], [1], [5], [6]]
      [[True, False], [True, False], [False, False], [False, True]]
      [[0], [1], [5], [6]]
     = Inr [[(1 / 2, 1 / 2), (1 / 3, 2 / 3)], [(1 / 2, 1 / 2), (1 / 3, 2 / 3)],
            [(1 / 2, 1 / 2), (3 / 11, 8 / 11)], [(1 / 2, 1 / 2), (3 / 11, 8 / 11)]]"
    by code_simp
  from e C2_fit_predict_probabilities [of nearest 2 "[[0], [1], [5], [6]]"
      "[[True, False], [True, False], [False, False], [False, True]]" "[[0], [1], [5], [6]]"
      "[[(1 / 2, 1 / 2), (1 / 3, 2 / 3)], [(1 / 2, 1 / 2), (1 / 3, 2 / 3)],
            [(1 / 2, 1 / 2), (3 / 11, 8 / 11)], [(1 / 2, 1 / 2), (3 / 11, 8 / 11)]]"]
  show ?thesis by blast
qed

text \<open>
  A degenerate training set: class 0 is all positive and class 1 all negative; the
  posteriors are still defined.
\<close>

lemma degenerate_class_example:
  "fit_predict_proba nearest 1 [[0], [4]] [[True, False], [True, False]] [[1]]
     = Inr [[(9 / 11, 2 / 11), (2 / 11, 9 / 11)]]"
  by code_simp

section \<open>Properties of the postprocessor\<close>

text \<open>
  Sub-tensors along the first dimension: how they behave under concatenation, under the
  argmax over the class dimension and under the cast of the targets.
\<close>

lemma chunk_append_left:
  assumes "i < n" and "length xs = n * m"
  shows "chunk m (xs @ ys) i = chunk m xs i"
proof -
  have "Suc i * m \<le> n * m"
    using assms(1) by (intro mult_le_mono1) simp
  then have le: "i * m + m \<le> length xs"
    using assms(2) by simp
  then have "i * m \<le> length xs" and "m \<le> length xs - i * m"
    by linarith+
  then show ?thesis
    by (simp add: chunk_def)
qed


lemma chunk_append_right:
  assumes "length xs = n * m"
  shows "chunk m (xs @ ys) (n + j) = chunk m ys j"
proof -
  have e: "(n + j) * m = length xs + j * m"
    using assms by (simp add: add_mult_distrib)
  have "drop ((n + j) * m) (xs @ ys) = drop (j * m) ys"
    unfolding e by simp
  then show ?thesis
    unfolding chunk_def by (rule arg_cong)
qed


lemma upt_shift: "[n..<n + k] = map (\<lambda>j. n + j) [0..<k]"
  by (induction k) simp_all

lemma map_chunk_append:
  assumes "length xs = n * m"
  shows "map (\<lambda>i. g (chunk m (xs @ ys) i)) [0..<n + k] =
         map (\<lambda>i. g (chunk m xs i)) [0..<n] @ map (\<lambda>i. g (chunk m ys i)) [0..<k]"
proof -
  have split: "[0..<n + k] = [0..<n] @ [n..<n + k]"
    by (rule upt_add_eq_append) simp
  have left: "map (\<lambda>i. g (chunk m (xs @ ys) i)) [0..<n] = map (\<lambda>i. g (chunk m xs i)) [0..<n]"
  proof (rule map_cong [OF refl])
    fix i
    assume "i \<in> set [0..<n]"
    then have "i < n" by simp
    then show "g (chunk m (xs @ ys) i) = g (chunk m xs i)"
      by (simp only: chunk_append_left [OF _ assms])
  qed
  have right: "map (\<lambda>i. g (chunk m (xs @ ys) i)) [n..<n + k] = map (\<lambda>i. g (chunk m ys i)) [0..<k]"
    by (simp only: upt_shift map_map comp_def chunk_append_right [OF assms])
  show ?thesis
    by (simp only: split map_append left right)
qed


lemma slices_Tensor:
  "slices (Tensor (n # s) xs) = map (\<lambda>i. Tensor s (chunk (numel s) xs i)) [0..<n]"
  by (simp add: slices_def)

lemma slices_shape:
  "shape l = n # s \<Longrightarrow> slices l = map (\<lambda>i. Tensor s (chunk (numel s) (data l) i)) [0..<n]"
  by (simp add: slices_def)

lemma slices_cat:
  assumes "list_all (\<lambda>l. wf_tensor l \<and> shape l \<noteq> [] \<and> tl (shape l) = s) ls"
  shows "slices (Tensor (sum_list (map (\<lambda>l. hd (shape l)) ls) # s) (concat (map data ls)))
         = concat (map slices ls)"
  using assms
proof (induction ls)
  case Nil
  then show ?case by (simp add: slices_Tensor)
next
  case (Cons l ls)
  let ?N = "sum_list (map (\<lambda>l. hd (shape l)) ls)"
  from Cons.prems obtain n where sh: "shape l = n # s"
    by (cases "shape l") auto
  from Cons.prems sh have len: "length (data l) = n * numel s"
    by (simp add: wf_tensor_def numel_def)
  from Cons.prems have rest: "list_all (\<lambda>l. wf_tensor l \<and> shape l \<noteq> [] \<and> tl (shape l) = s) ls"
    by simp
  have ih: "map (\<lambda>i. Tensor s (chunk (numel s) (concat (map data ls)) i)) [0..<?N]
            = concat (map slices ls)"
    using Cons.IH [OF rest] by (simp only: slices_Tensor)
  have "slices (Tensor (sum_list (map (\<lambda>l. hd (shape l)) (l # ls)) # s)
                  (concat (map data (l # ls))))
        = map (\<lambda>i. Tensor s (chunk (numel s) (data l @ concat (map data ls)) i)) [0..<n + ?N]"
    by (simp add: slices_Tensor sh)
  also have "\<dots> = map (\<lambda>i. Tensor s (chunk (numel s) (data l) i)) [0..<n]
                   @ map (\<lambda>i. Tensor s (chunk (numel s) (concat (map data ls)) i)) [0..<?N]"
    by (rule map_chunk_append [OF len])
  also have "\<dots> = slices l @ concat (map slices ls)"
    by (simp only: ih slices_shape [OF sh])
  finally show ?case by simp
qed

lemma skip_empty_1d:
  assumes "list_all (\<lambda>l. wf_tensor l \<and> shape l \<noteq> [] \<and> tl (shape l) = s) ls"
  shows "sum_list (map (\<lambda>l. hd (shape l)) (filter (\<lambda>u. shape u \<noteq> [0]) ls))
           = sum_list (map (\<lambda>l. hd (shape l)) ls)
         \<and> concat (map data (filter (\<lambda>u. shape u \<noteq> [0]) ls)) = concat (map data ls)"
  using assms
proof (induction ls)
  case Nil
  then show ?case by simp
next
  case (Cons l ls)
  from Cons.prems have ih:
    "sum_list (map (\<lambda>l. hd (shape l)) (filter (\<lambda>u. shape u \<noteq> [0]) ls))
           = sum_list (map (\<lambda>l. hd (shape l)) ls)
     \<and> concat (map data (filter (\<lambda>u. shape u \<noteq> [0]) ls)) = concat (map data ls)"
    by (intro Cons.IH) simp
  show ?case
  proof (cases "shape l = [0]")
    case True
    from Cons.prems True have "data l = []"
      by (simp add: wf_tensor_def numel_def)
    with True ih show ?thesis by simp
  next
    case False
    with ih show ?thesis by simp
  qed
qed

lemma torch_cat_shaped:
  assumes "ls \<noteq> []"
    and "list_all (\<lambda>l. wf_tensor l \<and> shape l \<noteq> [] \<and> tl (shape l) = s) ls"
  shows "torch_cat ls = Inr (Tensor (sum_list (map (\<lambda>l. hd (shape l)) ls) # s) (concat (map data ls)))"
proof (cases "filter (\<lambda>u. shape u \<noteq> [0]) ls")
  case Nil
  from assms(1) obtain l rest where ls: "ls = l # rest"
    by (cases ls) auto
  from Nil ls have "shape l = [0]"
    by (auto split: if_splits)
  with assms(2) ls have s: "s = []"
    by auto
  from skip_empty_1d [OF assms(2)] Nil
  have "sum_list (map (\<lambda>l. hd (shape l)) ls) = 0" and "concat (map data ls) = []"
    by simp_all
  with Nil assms(1) s show ?thesis
    by (simp add: torch_cat_def)
next
  case (Cons t rest)
  have sub: "set (t # rest) \<subseteq> set ls"
    using Cons by (metis filter_is_subset)
  then have "tl (shape t) = s"
    using assms(2) by (auto simp: list_all_iff)
  moreover have "list_all (\<lambda>u. shape u \<noteq> [] \<and> tl (shape u) = s) (t # rest)"
    using assms(2) sub by (auto simp: list_all_iff)
  moreover note skip_empty_1d [OF assms(2)]
  ultimately show ?thesis
    using assms(1) Cons by (simp add: torch_cat_def)
qed

lemma chunk_concat_uniform:
  "list_all (\<lambda>x. length x = r) xss \<Longrightarrow> i < length xss \<Longrightarrow> chunk r (concat xss) i = xss ! i"
proof (induction xss arbitrary: i)
  case Nil
  then show ?case by simp
next
  case (Cons x xss)
  from Cons.prems have len: "length x = 1 * r" and rest: "list_all (\<lambda>x. length x = r) xss"
    by simp_all
  show ?case
  proof (cases i)
    case 0
    have "chunk r (x @ concat xss) 0 = chunk r x 0"
      by (rule chunk_append_left [OF _ len]) simp
    also have "\<dots> = x"
      using len by (simp add: chunk_def)
    finally show ?thesis by (simp add: 0)
  next
    case (Suc j)
    with Cons.prems have j: "j < length xss" by simp
    have "chunk r (x @ concat xss) (1 + j) = chunk r (concat xss) j"
      by (rule chunk_append_right [OF len])
    also have "\<dots> = xss ! j"
      by (rule Cons.IH [OF rest j])
    finally show ?thesis by (simp add: Suc)
  qed
qed

lemma length_argmax_classes: "length (argmax_classes c r xs) = r"
  by (simp add: argmax_classes_def)

lemma argmax_dim1_slices:
  assumes "shape t = n # c # sh" and "0 < c"
  shows "\<exists>p. argmax_dim1 t = Inr p \<and> shape p = n # sh
              \<and> slices p = map (argmax_slice c sh) (slices t)"
proof -
  let ?f = "\<lambda>i. argmax_classes c (numel sh) (chunk (c * numel sh) (data t) i)"
  let ?p = "Tensor (n # sh) (concat (map ?f [0..<n]))"
  have res: "argmax_dim1 t = Inr ?p"
    using assms by (simp add: argmax_dim1_def)
  have uni: "list_all (\<lambda>x. length x = numel sh) (map ?f [0..<n])"
    by (simp add: list_all_iff length_argmax_classes)
  have "slices ?p = map (\<lambda>i. Tensor sh (chunk (numel sh) (concat (map ?f [0..<n])) i)) [0..<n]"
    by (rule slices_Tensor)
  also have "\<dots> = map (\<lambda>i. Tensor sh (?f i)) [0..<n]"
  proof (rule map_cong [OF refl])
    fix i
    assume "i \<in> set [0..<n]"
    then have i: "i < length (map ?f [0..<n])" by simp
    have "chunk (numel sh) (concat (map ?f [0..<n])) i = map ?f [0..<n] ! i"
      by (rule chunk_concat_uniform [OF uni i])
    also have "\<dots> = ?f i"
      using i by simp
    finally show "Tensor sh (chunk (numel sh) (concat (map ?f [0..<n])) i) = Tensor sh (?f i)"
      by simp
  qed
  also have "\<dots> = map (argmax_slice c sh) (slices t)"
    by (simp add: slices_shape [OF assms(1)] argmax_slice_def numel_def comp_def)
  finally have "slices ?p = map (argmax_slice c sh) (slices t)" .
  with res show ?thesis by simp
qed

lemma chunk_map: "chunk m (map f xs) i = map f (chunk m xs i)"
  by (simp add: chunk_def take_map drop_map)

lemma slices_to_int64: "slices (to_int64 t) = map to_int64 (slices t)"
  by (cases "shape t") (simp_all add: slices_def to_int64_def chunk_map)

lemma length_slices: "shape t = n # s \<Longrightarrow> length (slices t) = n"
  by (simp add: slices_def)

lemma length_concat_slices:
  "sample_sequences s ts \<Longrightarrow> length (concat (map slices ts)) = sum_list (slice_counts ts)"
proof (induction ts)
  case Nil
  then show ?case by (simp add: slice_counts_def)
next
  case (Cons t ts)
  from Cons.prems obtain n where sh: "shape t = n # s"
    by (cases "shape t") (auto simp: sample_sequences_def)
  from Cons.prems have "sample_sequences s ts"
    by (simp add: sample_sequences_def)
  from Cons.IH [OF this] show ?case
    by (simp add: slice_counts_def length_slices [OF sh] sh)
qed


lemma argmax_from_first_maximum:
  assumes "vs = drop i ys" and "bi < i" and "i \<le> length ys" and "ys ! bi = bv"
    and "\<forall>j<i. ys ! j \<le> bv" and "\<forall>j<bi. ys ! j < bv"
  shows "argmax_from bi bv i vs < length ys
         \<and> (\<forall>j<length ys. ys ! j \<le> ys ! argmax_from bi bv i vs)
         \<and> (\<forall>j<argmax_from bi bv i vs. ys ! j < ys ! argmax_from bi bv i vs)"
  using assms
proof (induction vs arbitrary: bi bv i)
  case Nil
  then have "i = length ys" by simp
  with Nil show ?case by simp
next
  case (Cons v vs)
  from Cons.prems(1) have i: "i < length ys"
    by (metis drop_all list.distinct(1) not_le)
  from Cons.prems(1) i have v: "v = ys ! i"
    by (metis Cons_nth_drop_Suc list.inject)
  from Cons.prems(1) i have vs: "vs = drop (Suc i) ys"
    by (metis Cons_nth_drop_Suc list.inject)
  show ?case
  proof (cases "bv < v")
    case True
    have le: "\<forall>j<Suc i. ys ! j \<le> v"
      using Cons.prems(5) True v by (auto simp: less_Suc_eq intro: less_imp_le order_le_less_trans)
    have lt: "\<forall>j<i. ys ! j < v"
      using Cons.prems(5) True by (auto intro: order_le_less_trans)
    have "argmax_from i v (Suc i) vs < length ys
         \<and> (\<forall>j<length ys. ys ! j \<le> ys ! argmax_from i v (Suc i) vs)
         \<and> (\<forall>j<argmax_from i v (Suc i) vs. ys ! j < ys ! argmax_from i v (Suc i) vs)"
      using i v le lt by (intro Cons.IH [OF vs]) simp_all
    with True show ?thesis by simp
  next
    case False
    have le: "\<forall>j<Suc i. ys ! j \<le> bv"
      using Cons.prems(5) False v by (auto simp: less_Suc_eq)
    have "argmax_from bi bv (Suc i) vs < length ys
         \<and> (\<forall>j<length ys. ys ! j \<le> ys ! argmax_from bi bv (Suc i) vs)
         \<and> (\<forall>j<argmax_from bi bv (Suc i) vs. ys ! j < ys ! argmax_from bi bv (Suc i) vs)"
      using i Cons.prems(2,4,6) le by (intro Cons.IH [OF vs]) simp_all
    with False show ?thesis by simp
  qed
qed

lemma argmax_list_first_maximum:
  assumes "xs \<noteq> []"
  shows "argmax_list xs < length xs
         \<and> (\<forall>j<length xs. xs ! j \<le> xs ! argmax_list xs)
         \<and> (\<forall>j<argmax_list xs. xs ! j < xs ! argmax_list xs)"
proof -
  from assms obtain v vs where xs: "xs = v # vs" by (cases xs) auto
  have "argmax_from 0 v 1 vs < length xs
         \<and> (\<forall>j<length xs. xs ! j \<le> xs ! argmax_from 0 v 1 vs)
         \<and> (\<forall>j<argmax_from 0 v 1 vs. xs ! j < xs ! argmax_from 0 v 1 vs)"
    by (rule argmax_from_first_maximum) (simp_all add: xs)
  then show ?thesis by (simp add: argmax_list_def xs)
qed



text \<open>
  The postprocessor on well-shaped per-sample sequences: the slices of the predictions are
  the argmax of the concatenated logit slices, the slices of the targets are the cast of
  the concatenated target slices. Nothing relates the two lists to each other.
\<close>

lemma postprocessor_slices:
  assumes dec: "decoder samples = Inr (PerSample ls)"
    and ne: "ls \<noteq> []"
    and logits: "sample_sequences (c # sh) ls"
    and c: "0 < c"
    and targets: "sample_sequences tsh ts"
    and tne: "ts \<noteq> []"
  shows "\<exists>p t. LinearPostprocessor_forward decoder samples (PerSample ts)
                  = Inr \<lparr>preds = p, target = t\<rparr>
           \<and> slices p = map (argmax_slice c sh) (concat (map slices ls))
           \<and> slices t = map to_int64 (concat (map slices ts))"
proof -
  let ?l = "Tensor (sum_list (slice_counts ls) # c # sh) (concat (map data ls))"
  let ?t = "Tensor (sum_list (slice_counts ts) # tsh) (concat (map data ts))"
  have catl: "torch_cat ls = Inr ?l"
    using torch_cat_shaped [OF ne] logits by (simp add: sample_sequences_def slice_counts_def)
  have catt: "torch_cat ts = Inr ?t"
    using torch_cat_shaped [OF tne] targets by (simp add: sample_sequences_def slice_counts_def)
  have sl: "slices ?l = concat (map slices ls)"
    using slices_cat [of "c # sh" ls] logits by (simp add: sample_sequences_def slice_counts_def)
  have st: "slices ?t = concat (map slices ts)"
    using slices_cat [of tsh ts] targets by (simp add: sample_sequences_def slice_counts_def)
  from argmax_dim1_slices [of ?l "sum_list (slice_counts ls)" c sh] c obtain p where
    p: "argmax_dim1 ?l = Inr p" and ps: "slices p = map (argmax_slice c sh) (slices ?l)"
    by auto
  have res: "LinearPostprocessor_forward decoder samples (PerSample ts)
               = Inr \<lparr>preds = p, target = to_int64 ?t\<rparr>"
    by (simp add: LinearPostprocessor_forward_def dec catl catt p ebind_def)
  have s1: "slices p = map (argmax_slice c sh) (concat (map slices ls))"
    by (simp only: ps sl)
  have s2: "slices (to_int64 ?t) = map to_int64 (concat (map slices ts))"
    by (simp only: slices_to_int64 st)
  from res s1 s2 show ?thesis by blast
qed

text \<open>
  \<open>LinearDecoder.forward_3d\<close> on a sample that retains at least two slices, when \<open>forward_\<close>
  gives a logit map of shape \<open>1 # c # sh\<close> per slice with at least two classes and no
  further dimension of size one: \<open>squeeze()\<close> then removes exactly the batch dimension of
  each map, and the sample's tensor is the sequence of its slices' logit maps.
\<close>

lemma emap_map_Inr: "list_all (\<lambda>e. fwd e = Inr (out e)) es \<Longrightarrow> emap fwd es = Inr (map out es)"
  by (induction es) simp_all

lemma map_nth_fun: "map (\<lambda>i. g (es ! i)) [0..<length es] = map g es"
proof -
  have "map (\<lambda>i. g (es ! i)) [0..<length es] = map g (map (nth es) [0..<length es])"
    by (simp only: map_map comp_def)
  then show ?thesis by (simp only: map_nth)
qed

lemma decode_sample_sequence:
  assumes outs: "list_all (\<lambda>e. fwd e = Inr (out e) \<and> wf_tensor (out e) \<and> shape (out e) = 1 # c # sh) es"
    and two: "2 \<le> length es" and c: "2 \<le> c" and sh: "1 \<notin> set sh"
  shows "\<exists>l. decode_sample fwd False es = Inr l \<and> wf_tensor l \<and> shape l = length es # c # sh
             \<and> slices l = map (\<lambda>e. Tensor (c # sh) (data (out e))) es"
proof -
  let ?D = "concat (map data (map out es))"
  let ?l = "Tensor (length es # c # sh) ?D"
  from two obtain e rest where es: "es = e # rest"
    by (cases es) auto
  have em: "emap fwd es = Inr (map out es)"
    using outs by (intro emap_map_Inr) (simp add: list_all_iff)
  have same: "list_all (\<lambda>u. shape u = shape (out e)) (map out rest)"
    using outs by (simp add: es list_all_iff)
  have st: "torch_stack (map out es) = Inr (Tensor (length es # 1 # c # sh) ?D)"
    using same outs by (simp add: torch_stack_def es)
  have keep: "filter (\<lambda>d. d \<noteq> 1) sh = sh"
    using sh by (induction sh) auto
  have sq: "squeeze (Tensor (length es # 1 # c # sh) ?D) = ?l"
    using two c keep by (simp add: squeeze_def)
  have "decode_sample fwd False es =
          ebind (emap fwd es) (\<lambda>outs. ebind (torch_stack outs) (\<lambda>t. Inr (squeeze t)))"
    by (simp add: decode_sample_def)
  also have "\<dots> = Inr (squeeze (Tensor (length es # 1 # c # sh) ?D))"
    by (simp only: em st ebind_def sum.case)
  finally have res: "decode_sample fwd False es = Inr ?l"
    by (simp only: sq)
  have uni: "list_all (\<lambda>x. length x = c * numel sh) (map data (map out es))"
    using outs by (simp add: list_all_iff wf_tensor_def numel_def)
  have len: "length ?D = length es * (c * numel sh)"
    using uni by (induction es) (simp_all add: list_all_iff)
  have wf: "wf_tensor ?l"
    using len by (simp add: wf_tensor_def numel_def)
  have "slices ?l = map (\<lambda>i. Tensor (c # sh) (chunk (numel (c # sh)) ?D i)) [0..<length es]"
    by (rule slices_Tensor)
  also have "\<dots> = map (\<lambda>i. Tensor (c # sh) (data (out (es ! i)))) [0..<length es]"
  proof (rule map_cong [OF refl])
    fix i
    assume "i \<in> set [0..<length es]"
    then have i: "i < length (map data (map out es))" by simp
    have "chunk (c * numel sh) ?D i = map data (map out es) ! i"
      by (rule chunk_concat_uniform [OF uni i])
    also have "\<dots> = data (out (es ! i))"
      using i by simp
    finally show "Tensor (c # sh) (chunk (numel (c # sh)) ?D i) = Tensor (c # sh) (data (out (es ! i)))"
      by (simp add: numel_def)
  qed
  also have "\<dots> = map (\<lambda>e. Tensor (c # sh) (data (out e))) es"
    by (rule map_nth_fun)
  finally have "slices ?l = map (\<lambda>e. Tensor (c # sh) (data (out e))) es" .
  with res wf show ?thesis by simp
qed

lemma forward_3d_sequences:
  assumes "list_all (\<lambda>es. list_all (\<lambda>e. fwd e = Inr (out e) \<and> wf_tensor (out e)
                                          \<and> shape (out e) = 1 # c # sh) es
                           \<and> 2 \<le> length es) ess"
    and c: "2 \<le> c" and sh: "1 \<notin> set sh"
  shows "\<exists>ls. LinearDecoder_forward_3d fwd ess False = Inr ls \<and> sample_sequences (c # sh) ls
             \<and> length ls = length ess
             \<and> concat (map slices ls) = map (\<lambda>e. Tensor (c # sh) (data (out e))) (concat ess)"
  using assms(1)
proof (induction ess)
  case Nil
  then show ?case
    by (simp add: LinearDecoder_forward_3d_def sample_sequences_def)
next
  case (Cons es ess)
  from Cons.prems have outs: "list_all (\<lambda>e. fwd e = Inr (out e) \<and> wf_tensor (out e)
                                          \<and> shape (out e) = 1 # c # sh) es"
    and two: "2 \<le> length es" by simp_all
  from decode_sample_sequence [OF outs two c sh] obtain l where
    l: "decode_sample fwd False es = Inr l" and wf: "wf_tensor l"
    and shl: "shape l = length es # c # sh"
    and sl: "slices l = map (\<lambda>e. Tensor (c # sh) (data (out e))) es"
    by blast
  from Cons.IH Cons.prems obtain ls where
    ls: "LinearDecoder_forward_3d fwd ess False = Inr ls" and seq: "sample_sequences (c # sh) ls"
    and len: "length ls = length ess"
    and sls: "concat (map slices ls) = map (\<lambda>e. Tensor (c # sh) (data (out e))) (concat ess)"
    by auto
  have "LinearDecoder_forward_3d fwd (es # ess) False = Inr (l # ls)"
    using l ls by (simp add: LinearDecoder_forward_3d_def)
  moreover have "sample_sequences (c # sh) (l # ls)"
    using seq wf shl by (simp add: sample_sequences_def)
  moreover have "concat (map slices (l # ls))
                 = map (\<lambda>e. Tensor (c # sh) (data (out e))) (concat (es # ess))"
    by (simp add: sl sls)
  ultimately show ?case
    using len by simp
qed


lemma argmax_slice_data: "argmax_slice c sh (Tensor s (data l)) = argmax_slice c sh l"
  by (simp add: argmax_slice_def)

text \<open>
  Claim C8, as the code has it. Take a non-empty 3D batch in which every sample retains at
  least two non-empty slices, decoded by \<open>LinearDecoder.forward\<close> in 3D mode from the
  embeddings of \<open>DINOV2Encoder.forward_3d\<close>, with \<open>forward_\<close> giving a logit map of shape
  \<open>1 # c # sh\<close> per retained slice (at least two classes, no further dimension of size
  one), and any non-empty list of well-shaped per-sample target tensors. The postprocessor
  returns: it concatenates the per-sample logit sequences and the per-sample targets along
  the first dimension, takes the argmax over the class dimension and casts the targets to
  64-bit integers. The predictions hold exactly one slice per non-empty slice of the batch,
  in sample and slice order, each the argmax of that slice's logit map. The targets hold
  every target slice that was passed, in order: the postprocessor does not filter them, so
  predictions and targets run over the same slices only when the caller passes the targets
  of the non-empty slices. Lemma \<open>argmax_list_first_maximum\<close> says that the class chosen at a
  position is the first one holding the largest logit.
\<close>

theorem C8_predictions_over_nonempty_slices:
  assumes ne: "x \<noteq> []"
    and kept: "list_all (\<lambda>bs. 2 \<le> length (nonempty_slices bs)) x"
    and outs: "list_all (\<lambda>e. fwd e = Inr (out e) \<and> wf_tensor (out e) \<and> shape (out e) = 1 # c # sh)
                 (concat (fst (DINOV2Encoder_forward_3d (traced f) x [])))"
    and c: "2 \<le> c" and sh: "1 \<notin> set sh"
    and targets: "sample_sequences tsh ts" and tne: "ts \<noteq> []"
  shows "\<exists>p t. LinearPostprocessor_forward (LinearDecoder_forward fwd True)
                  (Embedding3D (fst (DINOV2Encoder_forward_3d (traced f) x []))) (PerSample ts)
                = Inr \<lparr>preds = p, target = t\<rparr>
           \<and> slices p = map (\<lambda>scan. argmax_slice c sh (out (f (unsqueeze0 scan))))
                          (concat (map nonempty_slices x))
           \<and> slices t = map to_int64 (concat (map slices ts))
           \<and> length (slices p) = length (concat (map nonempty_slices x))
           \<and> length (slices t) = sum_list (slice_counts ts)"
proof -
  let ?ess = "map (\<lambda>bs. map (\<lambda>scan. f (unsqueeze0 scan)) (nonempty_slices bs)) x"
  have enc: "fst (DINOV2Encoder_forward_3d (traced f) x []) = ?ess"
    by (simp add: DINOV2Encoder_forward_3d_def batch_loop_traced)
  have each: "list_all (\<lambda>es. list_all (\<lambda>e. fwd e = Inr (out e) \<and> wf_tensor (out e)
                                          \<and> shape (out e) = 1 # c # sh) es
                           \<and> 2 \<le> length es) ?ess"
    using outs kept unfolding enc by (auto simp: list_all_iff)
  from forward_3d_sequences [OF each c sh] obtain ls where
    ls: "LinearDecoder_forward_3d fwd ?ess False = Inr ls" and seq: "sample_sequences (c # sh) ls"
    and len: "length ls = length ?ess"
    and sls: "concat (map slices ls) = map (\<lambda>e. Tensor (c # sh) (data (out e))) (concat ?ess)"
    by blast
  from len ne have lne: "ls \<noteq> []" by auto
  from c have c0: "0 < c" by simp
  have dec: "LinearDecoder_forward fwd True (Embedding3D ?ess) = Inr (PerSample ls)"
    by (simp add: LinearDecoder_forward_def ls ebind_def)
  from postprocessor_slices
         [of "LinearDecoder_forward fwd True" "Embedding3D ?ess", OF dec lne seq c0 targets tne]
  obtain p t where
    res: "LinearPostprocessor_forward (LinearDecoder_forward fwd True) (Embedding3D ?ess)
            (PerSample ts) = Inr \<lparr>preds = p, target = t\<rparr>"
    and sp: "slices p = map (argmax_slice c sh) (concat (map slices ls))"
    and st: "slices t = map to_int64 (concat (map slices ts))"
    by blast
  have flat: "concat ?ess = map (\<lambda>scan. f (unsqueeze0 scan)) (concat (map nonempty_slices x))"
    by (simp add: map_concat comp_def)
  have sp': "slices p = map (\<lambda>scan. argmax_slice c sh (out (f (unsqueeze0 scan))))
                          (concat (map nonempty_slices x))"
    by (simp add: sp sls flat comp_def argmax_slice_data)
  have n1: "length (slices p) = length (concat (map nonempty_slices x))"
    by (simp only: sp' length_map)
  have n2: "length (slices t) = sum_list (slice_counts ts)"
    by (simp only: st length_map length_concat_slices [OF targets])
  from res sp' st n1 n2 show ?thesis
    unfolding enc by blast
qed


text \<open>
  An instance: two samples of three slices, each with one empty slice, and the targets of
  the four retained slices: four predicted slices beside four target slices.
\<close>

theorem C8_retained_targets_witness:
  "example_volumes \<noteq> []
   \<and> list_all (\<lambda>bs. 2 \<le> length (nonempty_slices bs)) example_volumes
   \<and> list_all (\<lambda>e. example_forward e = Inr (example_logit_map e) \<and> wf_tensor (example_logit_map e)
                   \<and> shape (example_logit_map e) = 1 # 2 # [2])
        (concat (fst (DINOV2Encoder_forward_3d (traced example_encoder) example_volumes [])))
   \<and> (2 :: nat) \<le> 2
   \<and> 1 \<notin> set [2 :: nat]
   \<and> sample_sequences [2] example_retained_targets
   \<and> example_retained_targets \<noteq> []
   \<and> LinearPostprocessor_forward (LinearDecoder_forward example_forward True)
         (Embedding3D (fst (DINOV2Encoder_forward_3d (traced example_encoder) example_volumes [])))
         (PerSample example_retained_targets)
       = Inr \<lparr>preds = Tensor [4, 2] [0, 1, 1, 0, 0, 0, 1, 0],
              target = Tensor [4, 2] [0, 1, 1, 0, 1, 1, 1, 0]\<rparr>
   \<and> (\<exists>p t. LinearPostprocessor_forward (LinearDecoder_forward example_forward True)
                 (Embedding3D (fst (DINOV2Encoder_forward_3d (traced example_encoder)
                                      example_volumes [])))
                 (PerSample example_retained_targets)
               = Inr \<lparr>preds = p, target = t\<rparr>
          \<and> slices p = map (\<lambda>scan. argmax_slice 2 [2]
                                      (example_logit_map (example_encoder (unsqueeze0 scan))))
                         (concat (map nonempty_slices example_volumes))
          \<and> slices t = map to_int64 (concat (map slices example_retained_targets))
          \<and> length (slices p) = length (concat (map nonempty_slices example_volumes))
          \<and> length (slices t) = sum_list (slice_counts example_retained_targets))"
proof -
  have h1: "example_volumes \<noteq> []"
    by (simp add: example_volumes_def)
  have h2: "list_all (\<lambda>bs. 2 \<le> length (nonempty_slices bs)) example_volumes"
    by (simp add: example_volumes_def nonempty_slices_def is_zero_matrix_def)
  have h3: "list_all (\<lambda>e. example_forward e = Inr (example_logit_map e)
                   \<and> wf_tensor (example_logit_map e)
                   \<and> shape (example_logit_map e) = 1 # 2 # [2])
        (concat (fst (DINOV2Encoder_forward_3d (traced example_encoder) example_volumes [])))"
    by (simp add: DINOV2Encoder_forward_3d_def traced_def example_volumes_def
        is_zero_matrix_def example_forward_def example_logit_map_def
        example_encoder_def unsqueeze0_def wf_tensor_def numel_def)
  have h4: "(2 :: nat) \<le> 2"
    by simp
  have h5: "1 \<notin> set [2 :: nat]"
    by simp
  have h6: "sample_sequences [2] example_retained_targets"
    by (simp add: example_retained_targets_def sample_sequences_def wf_tensor_def numel_def)
  have h7: "example_retained_targets \<noteq> []"
    by (simp add: example_retained_targets_def)
  have e: "LinearPostprocessor_forward (LinearDecoder_forward example_forward True)
         (Embedding3D (fst (DINOV2Encoder_forward_3d (traced example_encoder) example_volumes [])))
         (PerSample example_retained_targets)
       = Inr \<lparr>preds = Tensor [4, 2] [0, 1, 1, 0, 0, 0, 1, 0],
              target = Tensor [4, 2] [0, 1, 1, 0, 1, 1, 1, 0]\<rparr>"
    by code_simp
  note t = C8_predictions_over_nonempty_slices
      [of example_volumes example_forward example_logit_map 2 "[2]" example_encoder "[2]"
          example_retained_targets, OF h1 h2 h3 h4 h5 h6 h7]
  from h1 h2 h3 h4 h5 h6 h7 e t show ?thesis
    by (intro conjI)
qed

text \<open>
  Claim C8 as stated has predictions and targets aligned over exactly the non-empty slices.
  On the same batch with the targets of all six slices, as the dataset holds them, the
  postprocessor raises nothing and returns four predicted slices beside six target slices.
\<close>

theorem C8_unfiltered_targets_counterexample:
  "LinearPostprocessor_forward (LinearDecoder_forward example_forward True)
         (Embedding3D (fst (DINOV2Encoder_forward_3d (traced example_encoder) example_volumes [])))
         (PerSample example_volume_targets)
       = Inr \<lparr>preds = Tensor [4, 2] [0, 1, 1, 0, 0, 0, 1, 0],
              target = Tensor [6, 2] [0, 1, 0, 0, 1, 0, 0, 0, 1, 1, 1, 0]\<rparr>
   \<and> length (slices (Tensor [4, 2] [0, 1, 1, 0, 0, 0, 1, 0 :: nat])) = 4
   \<and> length (slices (Tensor [6, 2] [0, 1, 0, 0, 1, 0, 0, 0, 1, 1, 1, 0 :: 64 word])) = 6
   \<and> length (concat (map nonempty_slices example_volumes)) = 4"
  by code_simp

text \<open>
  A batch whose samples retain one slice each: \<open>squeeze()\<close> also removes the slice
  dimension, and the predictions come out with another shape than the targets.
\<close>

lemma single_retained_slice_example:
  "LinearPostprocessor_forward (LinearDecoder_forward example_forward True)
         (Embedding3D (fst (DINOV2Encoder_forward_3d (traced example_encoder)
            [[Tensor [1, 2] [3, 1], Tensor [1, 2] [0, 0]],
             [Tensor [1, 2] [0, 0], Tensor [1, 2] [5, 6]]] [])))
         (PerSample [Tensor [1, 2] [0, 1], Tensor [1, 2] [1, 0]])
       = Inr \<lparr>preds = Tensor [4] [0, 1, 1, 0], target = Tensor [2, 2] [0, 1, 1, 0]\<rparr>"
  by code_simp

end
